theory Spec2Isabelle
  imports Main "HOL-Library.AList" "HOL-Library.Multiset"
begin

section \<open>Library functions the program relies on\<close>

text \<open>
  Go strings are byte sequences; they are modelled as \<^typ>\<open>string\<close>. The Go type
  \<^verbatim>\<open>int\<close> is modelled as \<^typ>\<open>int\<close>: the only arithmetic the program does on it
  is one division by two.
\<close>

subsection \<open>Formatting with \<^verbatim>\<open>%d\<close>\<close>

definition digit_char :: "nat \<Rightarrow> char" where
  "digit_char d = ''0123456789'' ! d"

function digits :: "nat \<Rightarrow> string" where
  "digits n = (if n < 10 then [digit_char n] else digits (n div 10) @ [digit_char (n mod 10)])"
  by pat_completeness auto
termination
  by (relation "measure (\<lambda>n. n)") auto

declare digits.simps [simp del]

text \<open>\<^verbatim>\<open>fmt.Sprintf("%d", i)\<close>.\<close>

definition show_int :: "int \<Rightarrow> string" where
  "show_int i = (if i < 0 then ''-'' @ digits (nat (- i)) else digits (nat i))"

text \<open>Go's integer division truncates towards zero.\<close>

definition go_div :: "int \<Rightarrow> int \<Rightarrow> int" where
  "go_div a b = (if 0 \<le> a then a div b else - ((- a) div b))"

subsection \<open>\<^verbatim>\<open>time.Time.Format\<close> for the two layouts the program uses\<close>

record Time =
  Year :: nat
  Month :: nat
  Day :: nat
  Hour :: nat
  Minute :: nat
  Second :: nat
  Unix :: int

definition pad :: "nat \<Rightarrow> nat \<Rightarrow> string" where
  "pad w n = replicate (w - length (digits n)) (CHR ''0'') @ digits n"

text \<open>Layout \<^verbatim>\<open>2006-01-02\<close>.\<close>

definition format_date :: "Time \<Rightarrow> string" where
  "format_date t = pad 4 (Year t) @ ''-'' @ pad 2 (Month t) @ ''-'' @ pad 2 (Day t)"

text \<open>Layout \<^verbatim>\<open>150405\<close>.\<close>

definition format_clock :: "Time \<Rightarrow> string" where
  "format_clock t = pad 2 (Hour t) @ pad 2 (Minute t) @ pad 2 (Second t)"

text \<open>Layout \<^verbatim>\<open>20060102_150405\<close>.\<close>

definition format_stamp :: "Time \<Rightarrow> string" where
  "format_stamp t = pad 4 (Year t) @ pad 2 (Month t) @ pad 2 (Day t) @ ''_'' @ format_clock t"

subsection \<open>\<^verbatim>\<open>strings\<close> and \<^verbatim>\<open>path/filepath\<close>\<close>

fun HasPrefix :: "string \<Rightarrow> string \<Rightarrow> bool" where
  "HasPrefix s [] = True"
| "HasPrefix [] (c # cs) = False"
| "HasPrefix (x # xs) (c # cs) = (x = c \<and> HasPrefix xs cs)"

fun Contains :: "string \<Rightarrow> string \<Rightarrow> bool" where
  "Contains [] sub = (sub = [])"
| "Contains (x # xs) sub = (HasPrefix (x # xs) sub \<or> Contains xs sub)"

text \<open>\<^verbatim>\<open>strings.ReplaceAll(s, old, new)\<close> for a one-byte \<^verbatim>\<open>old\<close>.\<close>

definition ReplaceAll1 :: "string \<Rightarrow> char \<Rightarrow> string \<Rightarrow> string" where
  "ReplaceAll1 s old new = concat (map (\<lambda>c. if c = old then new else [c]) s)"

text \<open>The components of a path between separators; a helper of \<open>Clean\<close>.\<close>

fun split_sep :: "string \<Rightarrow> string \<Rightarrow> string list" where
  "split_sep acc [] = [rev acc]"
| "split_sep acc (c # cs) =
     (if c = CHR ''/'' then rev acc # split_sep [] cs else split_sep (c # acc) cs)"

fun join_sep :: "string list \<Rightarrow> string" where
  "join_sep [] = []"
| "join_sep [x] = x"
| "join_sep (x # y # ys) = x @ ''/'' @ join_sep (y # ys)"

text \<open>
  One step of \<^verbatim>\<open>filepath.Clean\<close> over the stack of components kept so far (innermost
  first): a \<^verbatim>\<open>.\<close> is dropped, a \<^verbatim>\<open>..\<close> removes the component before it, is dropped at
  the root of a rooted path and is kept at the start of a relative one.
\<close>

fun clean_step :: "bool \<Rightarrow> string list \<Rightarrow> string \<Rightarrow> string list" where
  "clean_step rooted st c =
     (if c = [] \<or> c = ''.'' then st
      else if c = ''..'' then
        (case st of
           [] \<Rightarrow> if rooted then [] else [''..'']
         | t # ts \<Rightarrow> if t = ''..'' then ''..'' # st else ts)
      else c # st)"

definition Clean :: "string \<Rightarrow> string" where
  "Clean p =
     (let rooted = HasPrefix p ''/'';
          st = foldl (clean_step rooted) [] (split_sep [] p);
          out = (if rooted then ''/'' else []) @ join_sep (rev st)
      in if out = [] then ''.'' else out)"

text \<open>
  \<^verbatim>\<open>filepath.Join\<close>: leading empty elements are skipped, the rest is joined with
  the separator and cleaned; with no non-empty element the result is empty.
\<close>

definition Join :: "string list \<Rightarrow> string" where
  "Join elem =
     (case dropWhile (\<lambda>e. e = []) elem of
        [] \<Rightarrow> []
      | e # es \<Rightarrow> Clean (join_sep (e # es)))"

section \<open>Configuration (\<^verbatim>\<open>cmd/server/main.go\<close>)\<close>

record ImageGenConfig =
  OutputDir :: string
  LogDir :: string
  Width :: int
  Height :: int

record PlatformConfig =
  Name :: string
  EnvKey :: string
  APIKey :: string
  URL :: string
  Model :: string
  Enabled :: bool
  Description :: string

text \<open>
  \<^verbatim>\<open>PlatformConfigs\<close> is a Go map from provider key to descriptor. It is modelled as an
  association list read through \<^const>\<open>map_of\<close>; the order of the list stands for one
  iteration order of the Go map.
\<close>

type_synonym PlatformConfigs = "(string \<times> PlatformConfig) list"

record Config =
  ImageGen :: ImageGenConfig
  Platforms :: PlatformConfigs

text \<open>
  \<^verbatim>\<open>loadConfig\<close>: the first argument is the outcome of reading and unmarshalling the
  file (an error text or the parsed configuration), the second is \<^verbatim>\<open>os.Getenv\<close>.
\<close>

definition loadConfig :: "string + Config \<Rightarrow> (string \<Rightarrow> string) \<Rightarrow> string + Config" where
  "loadConfig parsed getenv =
     (case parsed of
        Inl err \<Rightarrow> Inl err
      | Inr c \<Rightarrow>
          (let c1 = (if Width (ImageGen c) = 0
                     then c\<lparr>ImageGen := (ImageGen c)\<lparr>Width := 1024\<rparr>\<rparr> else c);
               c2 = (if Height (ImageGen c1) = 0
                     then c1\<lparr>ImageGen := (ImageGen c1)\<lparr>Height := 2048\<rparr>\<rparr> else c1)
           in Inr (c2\<lparr>Platforms :=
                map (\<lambda>(key, p).
                       (key, if getenv (EnvKey p) \<noteq> []
                             then p\<lparr>APIKey := getenv (EnvKey p), Enabled := True\<rparr>
                             else p))
                    (Platforms c2)\<rparr>)))"

definition getEnabledPlatforms :: "Config \<Rightarrow> PlatformConfigs" where
  "getEnabledPlatforms cfg = filter (\<lambda>(key, p). Enabled p \<and> APIKey p \<noteq> []) (Platforms cfg)"

section \<open>The outside world: what it answers and what the program asks of it\<close>

text \<open>
  A request body of one of the three wire formats. \<open>SyncBody model prompt size\<close> is
  \<^verbatim>\<open>{model, prompt, size, n: 1}\<close>; \<open>AliyunBody model prompt size\<close> is
  \<^verbatim>\<open>{model, input: {prompt}, parameters: {size, n: 1}}\<close>; \<open>ModelScopeBody model prompt size\<close>
  is \<^verbatim>\<open>{model, prompt}\<close> with \<^verbatim>\<open>size\<close> added when present.
\<close>

datatype body =
    SyncBody string string string
  | AliyunBody string string string
  | ModelScopeBody string string "string option"

text \<open>A POST request: URL, the \<^verbatim>\<open>Authorization\<close> header and the body.\<close>

record request =
  req_url :: string
  req_auth :: string
  req_body :: body

text \<open>
  The answer to a synchronous generation request: a transport error with its text, or a
  status code, the raw body and what unmarshalling the body into
  \<^verbatim>\<open>{data: [{url}]}\<close> gives (an error text or the URLs).
\<close>

datatype syncResponse =
    SyncTransportError string
  | SyncReply int string "string + string list"

text \<open>
  The answer to a task submission: a transport error, or whether unmarshalling failed
  together with the task identifier found in the body (empty when absent).
\<close>

datatype submitResponse =
    SubmitTransportError
  | SubmitReply bool string

text \<open>
  The answer to one status poll: a transport error, or the status token and the result
  URLs found in the body (empty when absent or when the body does not parse: the
  program ignores the unmarshalling error).
\<close>

datatype pollResponse =
    PollTransportError
  | PollReply string "string list"

text \<open>
  The answer to fetching an image: a transport error with its text, or the bytes that
  \<^verbatim>\<open>io.ReadAll\<close> returned and the read error, if any.
\<close>

datatype fetchResponse =
    FetchError string
  | FetchBody string "string option"

text \<open>
  One request sees one world. \<open>now\<close> is the instant \<^verbatim>\<open>time.Now()\<close> returns;
  \<open>getTask url i\<close> is the answer to the poll of iteration \<open>i\<close>; \<open>writeFile\<close>,
  \<open>openFile\<close> and \<open>newRequest\<close> give the error, if any, of \<^verbatim>\<open>os.WriteFile\<close>,
  \<^verbatim>\<open>os.Open\<close> and \<^verbatim>\<open>http.NewRequest\<close> on a path or URL; \<open>postForm url auth img title
  content\<close> is the answer to a multipart upload: a transport error or a status code.
\<close>

record world =
  now :: Time
  postSync :: "request \<Rightarrow> syncResponse"
  postTask :: "request \<Rightarrow> submitResponse"
  getTask :: "string \<Rightarrow> nat \<Rightarrow> pollResponse"
  getImage :: "string \<Rightarrow> fetchResponse"
  writeFile :: "string \<Rightarrow> string option"
  openFile :: "string \<Rightarrow> string option"
  newRequest :: "string \<Rightarrow> string option"
  postForm :: "string \<Rightarrow> string \<Rightarrow> string \<Rightarrow> string \<Rightarrow> string \<Rightarrow> string + int"

text \<open>The lines the program logs, by the place that logs them.\<close>

datatype logLine =
    LogHTTPError
  | LogParseFailed
  | LogCreateTaskFailed
  | LogTaskIDFailed
  | LogTaskCreated string
  | LogTaskFailed
  | LogTaskStatus string
  | LogTimeout
  | LogDownloadFailed
  | LogSuccess string

text \<open>
  A row of the \<^verbatim>\<open>images\<close> table. The timestamps of the Go struct are left out: no
  function modelled here reads them.
\<close>

record ImageRecord =
  rec_ID :: nat
  rec_Name :: string
  rec_Date :: string
  rec_Path :: string
  rec_Platform :: string
  rec_Model :: string
  rec_Prompt :: string
  rec_Status :: string
  rec_Note :: string

text \<open>What the program asks of the world, in order.\<close>

datatype event =
    EvPost request
  | EvDbCreate ImageRecord
  | EvSleep nat
  | EvPoll string string
  | EvMkdirAll string
  | EvFetch string
  | EvWriteFile string string
  | EvLog string logLine
  | EvLangchain string string string
  | EvPublish string string string string

section \<open>Artifact store (\<^verbatim>\<open>downloadAndSave\<close>)\<close>

record GenerateResult =
  res_Platform :: string
  res_Model :: string
  res_Filename :: string
  res_FilePath :: string
  res_Success :: bool

text \<open>
  The result is the returned pointer (\<open>None\<close> for \<^verbatim>\<open>nil\<close>) and the events in the
  order the code issues them. The error of \<^verbatim>\<open>os.WriteFile\<close> and the read error are
  ignored by the code.
\<close>

definition downloadAndSave ::
  "world \<Rightarrow> Config \<Rightarrow> PlatformConfig \<Rightarrow> string \<Rightarrow> string \<Rightarrow> GenerateResult option \<times> event list" where
  "downloadAndSave w cfg p platform imageURL =
     (let dateDir = format_date (now w);
          dir = Join [OutputDir (ImageGen cfg), dateDir, platform];
          filename = format_clock (now w) @ ''.png'';
          path = Join [dir, filename]
      in case getImage w imageURL of
           FetchError err \<Rightarrow>
             (None, [EvMkdirAll dir, EvFetch imageURL, EvLog (Name p) LogDownloadFailed])
         | FetchBody data rerr \<Rightarrow>
             (Some \<lparr>res_Platform = Name p, res_Model = Model p, res_Filename = filename,
                    res_FilePath = path, res_Success = True\<rparr>,
              [EvMkdirAll dir, EvFetch imageURL, EvWriteFile path data,
               EvLog (Name p) (LogSuccess path)]))"

definition after :: "event list \<Rightarrow> 'a \<times> event list \<Rightarrow> 'a \<times> event list" where
  "after evs r = (fst r, evs @ snd r)"

section \<open>Synchronous adapter (\<^verbatim>\<open>generateSyncImage\<close>)\<close>

text \<open>
  URLs are taken to be well formed, so that \<^verbatim>\<open>http.NewRequest\<close>, whose error the code
  drops, returns a request.
\<close>

definition generateSyncImage ::
  "world \<Rightarrow> Config \<Rightarrow> PlatformConfig \<Rightarrow> string \<Rightarrow> GenerateResult option \<times> event list" where
  "generateSyncImage w cfg p prompt =
     (let width = Width (ImageGen cfg);
          height = Height (ImageGen cfg);
          sz = (if height > width
                then show_int (go_div width 2) @ ''x'' @ show_int height
                else show_int width @ ''x'' @ show_int height);
          apiURL = (if \<not> Contains (URL p) ''/images/generations''
                    then URL p @ ''/images/generations'' else URL p);
          req = \<lparr>req_url = apiURL, req_auth = ''Bearer '' @ APIKey p,
                 req_body = SyncBody (Model p) prompt sz\<rparr>
      in case postSync w req of
           SyncTransportError err \<Rightarrow> (None, [EvPost req, EvLog (Name p) LogHTTPError])
         | SyncReply status raw parsed \<Rightarrow>
             if status \<noteq> 200 then (None, [EvPost req, EvLog (Name p) LogHTTPError])
             else (case parsed of
                     Inl err \<Rightarrow> (None, [EvPost req, EvLog (Name p) LogParseFailed])
                   | Inr [] \<Rightarrow> (None, [EvPost req, EvLog (Name p) LogParseFailed])
                   | Inr (imageURL # rest) \<Rightarrow>
                       after [EvPost req] (downloadAndSave w cfg p ''siliconflow'' imageURL)))"

section \<open>Asynchronous task pollers\<close>

subsection \<open>\<^verbatim>\<open>generateAliyunImage\<close>\<close>

definition aliyun_task_url :: "string \<Rightarrow> string" where
  "aliyun_task_url taskID = ''https://dashscope.aliyuncs.com/api/v1/tasks/'' @ taskID"

text \<open>
  The polling loop of \<^verbatim>\<open>generateAliyunImage\<close> from iteration \<open>i\<close> on, with
  \<^verbatim>\<open>maxRetries := 30\<close> and a sleep of two seconds before each poll.
\<close>

function aliyunPoll ::
  "world \<Rightarrow> Config \<Rightarrow> PlatformConfig \<Rightarrow> string \<Rightarrow> nat \<Rightarrow> GenerateResult option \<times> event list" where
  "aliyunPoll w cfg p taskID i =
     (if i < 30 then
        (case getTask w (aliyun_task_url taskID) i of
           PollTransportError \<Rightarrow>
             after [EvSleep 2, EvPoll (aliyun_task_url taskID) (''Bearer '' @ APIKey p)]
               (aliyunPoll w cfg p taskID (Suc i))
         | PollReply status results \<Rightarrow>
             if status = ''SUCCEEDED'' \<and> results \<noteq> [] then
               after [EvSleep 2, EvPoll (aliyun_task_url taskID) (''Bearer '' @ APIKey p)]
                 (downloadAndSave w cfg p ''aliyun'' (hd results))
             else if status = ''FAILED'' then
               (None, [EvSleep 2, EvPoll (aliyun_task_url taskID) (''Bearer '' @ APIKey p),
                       EvLog (Name p) LogTaskFailed])
             else
               after [EvSleep 2, EvPoll (aliyun_task_url taskID) (''Bearer '' @ APIKey p)]
                 (aliyunPoll w cfg p taskID (Suc i)))
      else (None, [EvLog (Name p) LogTimeout]))"
  by pat_completeness auto
termination
  by (relation "measure (\<lambda>(w, cfg, p, taskID, i). 30 - i)") auto

declare aliyunPoll.simps [simp del]

definition generateAliyunImage ::
  "world \<Rightarrow> Config \<Rightarrow> PlatformConfig \<Rightarrow> string \<Rightarrow> GenerateResult option \<times> event list" where
  "generateAliyunImage w cfg p prompt =
     (let req = \<lparr>req_url =
                   ''https://dashscope.aliyuncs.com/api/v1/services/aigc/text2image/image-synthesis'',
                 req_auth = ''Bearer '' @ APIKey p,
                 req_body = AliyunBody (Model p) prompt
                   (show_int (Width (ImageGen cfg)) @ ''*'' @ show_int (Height (ImageGen cfg)))\<rparr>
      in case postTask w req of
           SubmitTransportError \<Rightarrow> (None, [EvPost req, EvLog (Name p) LogCreateTaskFailed])
         | SubmitReply unmarshalErr taskID \<Rightarrow>
             if unmarshalErr \<or> taskID = [] then
               (None, [EvPost req, EvLog (Name p) LogTaskIDFailed])
             else
               after [EvPost req, EvLog (Name p) (LogTaskCreated taskID)]
                 (aliyunPoll w cfg p taskID 0))"

subsection \<open>\<^verbatim>\<open>generateModelScopeImage\<close>\<close>

definition modelscope_task_url :: "PlatformConfig \<Rightarrow> string \<Rightarrow> string" where
  "modelscope_task_url p taskID = URL p @ ''/v1/tasks/'' @ taskID"

text \<open>
  The polling loop of \<^verbatim>\<open>generateModelScopeImage\<close> from iteration \<open>i\<close> on, with
  \<^verbatim>\<open>maxRetries := 60\<close> and a sleep of three seconds before each poll.
\<close>

function modelScopePoll ::
  "world \<Rightarrow> Config \<Rightarrow> PlatformConfig \<Rightarrow> string \<Rightarrow> nat \<Rightarrow> GenerateResult option \<times> event list" where
  "modelScopePoll w cfg p taskID i =
     (if i < 60 then
        (case getTask w (modelscope_task_url p taskID) i of
           PollTransportError \<Rightarrow>
             after [EvSleep 3, EvPoll (modelscope_task_url p taskID) (''Bearer '' @ APIKey p)]
               (modelScopePoll w cfg p taskID (Suc i))
         | PollReply status images \<Rightarrow>
             if status = ''SUCCEED'' \<and> images \<noteq> [] then
               after [EvSleep 3, EvPoll (modelscope_task_url p taskID) (''Bearer '' @ APIKey p)]
                 (downloadAndSave w cfg p ''modelscope'' (hd images))
             else if status = ''FAILED'' then
               (None, [EvSleep 3, EvPoll (modelscope_task_url p taskID) (''Bearer '' @ APIKey p),
                       EvLog (Name p) LogTaskFailed])
             else
               after [EvSleep 3, EvPoll (modelscope_task_url p taskID) (''Bearer '' @ APIKey p),
                      EvLog (Name p) (LogTaskStatus status)]
                 (modelScopePoll w cfg p taskID (Suc i)))
      else (None, [EvLog (Name p) LogTimeout]))"
  by pat_completeness auto
termination
  by (relation "measure (\<lambda>(w, cfg, p, taskID, i). 60 - i)") auto

declare modelScopePoll.simps [simp del]

definition generateModelScopeImage ::
  "world \<Rightarrow> Config \<Rightarrow> PlatformConfig \<Rightarrow> string \<Rightarrow> string \<Rightarrow> GenerateResult option \<times> event list" where
  "generateModelScopeImage w cfg p prompt sz =
     (let req = \<lparr>req_url = URL p @ ''/v1/images/generations'',
                 req_auth = ''Bearer '' @ APIKey p,
                 req_body = ModelScopeBody (Model p) prompt
                   (if sz \<noteq> [] then Some sz else None)\<rparr>
      in case postTask w req of
           SubmitTransportError \<Rightarrow> (None, [EvPost req, EvLog (Name p) LogCreateTaskFailed])
         | SubmitReply unmarshalErr taskID \<Rightarrow>
             if taskID = [] then
               (None, [EvPost req, EvLog (Name p) LogTaskIDFailed])
             else
               after [EvPost req, EvLog (Name p) (LogTaskCreated taskID)]
                 (modelScopePoll w cfg p taskID 0))"

section \<open>Generation orchestrator (\<^verbatim>\<open>generateImage\<close>, \<^verbatim>\<open>handleGenerate\<close>)\<close>

definition generateImage ::
  "world \<Rightarrow> Config \<Rightarrow> string \<Rightarrow> string \<Rightarrow> string \<Rightarrow> GenerateResult option \<times> event list" where
  "generateImage w cfg platform prompt sz =
     (case map_of (Platforms cfg) platform of
        None \<Rightarrow> (None, [])
      | Some p \<Rightarrow>
          if \<not> Enabled p then (None, [])
          else if platform = ''aliyun'' then generateAliyunImage w cfg p prompt
          else if platform = ''modelscope'' then generateModelScopeImage w cfg p prompt sz
          else generateSyncImage w cfg p prompt)"

text \<open>The JSON bodies the handlers answer with, and a response as status code and body.\<close>

datatype jsonBody =
    ErrorBody string
  | GenerateOk string string string
  | PublishOk "string \<Rightarrow> string option"

type_synonym response = "nat \<times> jsonBody"

definition msg_generate_failed :: string where
  "msg_generate_failed =
    [CHR 0xE7, CHR 0x94, CHR 0x9F, CHR 0xE6, CHR 0x88, CHR 0x90, CHR 0xE5, CHR 0xA4,
     CHR 0xB1, CHR 0xE8, CHR 0xB4, CHR 0xA5, CHR 0xEF, CHR 0xBC, CHR 0x8C, CHR 0xE8,
     CHR 0xAF, CHR 0xB7, CHR 0xE6, CHR 0xA3, CHR 0x80, CHR 0xE6, CHR 0x9F, CHR 0xA5,
     CHR 0xE5, CHR 0xB9, CHR 0xB3, CHR 0xE5, CHR 0x8F, CHR 0xB0, CHR 0xE6, CHR 0x98,
     CHR 0xAF, CHR 0xE5, CHR 0x90, CHR 0xA6, CHR 0xE6, CHR 0xAD, CHR 0xA3, CHR 0xE7,
     CHR 0xA1, CHR 0xAE, CHR 0xE6, CHR 0x88, CHR 0x96, CHR ''A'', CHR ''P'', CHR ''I'',
     CHR 0xE6, CHR 0x98, CHR 0xAF, CHR 0xE5, CHR 0x90, CHR 0xA6, CHR 0xE9, CHR 0x85,
     CHR 0x8D, CHR 0xE7, CHR 0xBD, CHR 0xAE]"

definition msg_specify_platform :: string where
  "msg_specify_platform =
    [CHR 0xE8, CHR 0xAF, CHR 0xB7, CHR 0xE6, CHR 0x8C, CHR 0x87, CHR 0xE5, CHR 0xAE,
     CHR 0x9A, CHR 0xE5, CHR 0xB9, CHR 0xB3, CHR 0xE5, CHR 0x8F, CHR 0xB0, CHR '':'',
     CHR '' '']"

record GenerateRequest =
  gq_Prompt :: string
  gq_Platform :: string
  gq_Size :: string

text \<open>
  \<^verbatim>\<open>handleGenerate\<close>: the third argument is the outcome of \<^verbatim>\<open>c.ShouldBindJSON\<close>, an
  error text or the bound request.
\<close>

definition handleGenerate ::
  "world \<Rightarrow> Config \<Rightarrow> string + GenerateRequest \<Rightarrow> response \<times> event list" where
  "handleGenerate w cfg bound =
     (case bound of
        Inl err \<Rightarrow> ((400, ErrorBody (msg_specify_platform @ err)), [])
      | Inr req \<Rightarrow>
          (case generateImage w cfg (gq_Platform req) (gq_Prompt req) (gq_Size req) of
             (None, evs) \<Rightarrow> ((500, ErrorBody msg_generate_failed), evs)
           | (Some result, evs) \<Rightarrow>
               ((200, GenerateOk (res_FilePath result) (res_Platform result) (res_Model result)),
                evs @ [EvDbCreate
                  \<lparr>rec_ID = 0, rec_Name = res_Filename result, rec_Date = format_date (now w),
                   rec_Path = res_FilePath result, rec_Platform = res_Platform result,
                   rec_Model = res_Model result, rec_Prompt = gq_Prompt req,
                   rec_Status = ''pending'', rec_Note = []\<rparr>])))"

section \<open>The generator package (\<^verbatim>\<open>ImageGenerator\<close>)\<close>

text \<open>
  Of \<^verbatim>\<open>ImageGenConfig\<close> the generator reads the output directory and the two
  dimensions only.
\<close>

record GenConfig =
  g_OutputDir :: string
  g_Width :: int
  g_Height :: int

record PlatformGenerator =
  gen_Name :: string
  gen_APIKey :: string
  gen_Model :: string
  gen_BaseURL :: string

text \<open>
  \<open>generators\<close> is a Go map from provider key to generator, as an association list
  with one entry per key.
\<close>

record ImageGenerator =
  ig_cfg :: GenConfig
  generators :: "(string \<times> PlatformGenerator) list"

definition New :: "GenConfig \<Rightarrow> PlatformConfigs \<Rightarrow> ImageGenerator" where
  "New cfg platforms =
     \<lparr>ig_cfg = cfg,
      generators = map (\<lambda>(key, platformCfg).
          (key, \<lparr>gen_Name = Name platformCfg, gen_APIKey = APIKey platformCfg,
                 gen_Model = Model platformCfg, gen_BaseURL = URL platformCfg\<rparr>)) platforms\<rparr>"

record GenResult =
  gr_Platform :: string
  gr_FilePath :: string
  gr_ImageURL :: string
  gr_Success :: bool
  gr_Error :: string
  gr_GeneratedAt :: Time

definition msg_platform_not_enabled :: string where
  "msg_platform_not_enabled =
    [CHR 0xE5, CHR 0xB9, CHR 0xB3, CHR 0xE5, CHR 0x8F, CHR 0xB0, CHR 0xE6, CHR 0x9C,
     CHR 0xAA, CHR 0xE5, CHR 0x90, CHR 0xAF, CHR 0xE7, CHR 0x94, CHR 0xA8]"

definition msg_no_image_returned :: string where
  "msg_no_image_returned =
    [CHR 0xE6, CHR 0x97, CHR 0xA0, CHR 0xE5, CHR 0x9B, CHR 0xBE, CHR 0xE7, CHR 0x89,
     CHR 0x87, CHR 0xE8, CHR 0xBF, CHR 0x94, CHR 0xE5, CHR 0x9B, CHR 0x9E, CHR '':'',
     CHR '' '']"

definition msg_parse_response_failed :: string where
  "msg_parse_response_failed =
    [CHR 0xE8, CHR 0xA7, CHR 0xA3, CHR 0xE6, CHR 0x9E, CHR 0x90, CHR 0xE5, CHR 0x93,
     CHR 0x8D, CHR 0xE5, CHR 0xBA, CHR 0x94, CHR 0xE5, CHR 0xA4, CHR 0xB1, CHR 0xE8,
     CHR 0xB4, CHR 0xA5, CHR '':'', CHR '' '']"

text \<open>\<^verbatim>\<open>generateViaHTTP\<close>: the image URL (\<open>Inr\<close>) or the error text (\<open>Inl\<close>).\<close>

definition generateViaHTTP ::
  "world \<Rightarrow> PlatformGenerator \<Rightarrow> string \<Rightarrow> int \<Rightarrow> int \<Rightarrow> (string + string) \<times> event list" where
  "generateViaHTTP w p prompt width height =
     (let sz = show_int width @ ''x'' @ show_int height;
          apiURL = (if \<not> Contains (gen_BaseURL p) ''/images/generations''
                    then gen_BaseURL p @ ''/images/generations'' else gen_BaseURL p);
          req = \<lparr>req_url = apiURL, req_auth = ''Bearer '' @ gen_APIKey p,
                 req_body = SyncBody (gen_Model p) prompt sz\<rparr>
      in case newRequest w apiURL of
           Some err \<Rightarrow> (Inl err, [])
         | None \<Rightarrow>
            (case postSync w req of
               SyncTransportError err \<Rightarrow> (Inl err, [EvPost req])
             | SyncReply status raw parsed \<Rightarrow>
                 if status \<noteq> 200 then
                   (Inl (''HTTP '' @ show_int status @ '': '' @ raw), [EvPost req])
                 else (case parsed of
                         Inl err \<Rightarrow> (Inl (msg_parse_response_failed @ err), [EvPost req])
                       | Inr urls \<Rightarrow>
                           if urls = [] \<or> hd urls = [] then
                             (Inl (msg_no_image_returned @ raw), [EvPost req])
                           else (Inr (hd urls), [EvPost req]))))"

text \<open>
  \<^verbatim>\<open>Generate\<close> first makes the demonstration call through langchaingo, whose outcome
  is only logged, and then the HTTP call.
\<close>

definition Generate ::
  "world \<Rightarrow> PlatformGenerator \<Rightarrow> string \<Rightarrow> int \<Rightarrow> int \<Rightarrow> (string + string) \<times> event list" where
  "Generate w p prompt width height =
     after [EvLangchain (gen_BaseURL p) (gen_Model p) prompt]
       (generateViaHTTP w p prompt width height)"

definition sanitizeFilename :: "string \<Rightarrow> string" where
  "sanitizeFilename name =
     (let n0 = (if length name > 20 then take 20 name else name);
          n1 = ReplaceAll1 n0 (CHR ''/'') ''_'';
          n2 = ReplaceAll1 n1 (CHR '' '') ''_''
      in ReplaceAll1 n2 (CHR '':'') ''_'')"

text \<open>\<^verbatim>\<open>downloadImage\<close> with \<^verbatim>\<open>httpGet\<close> inlined: the error, if any.\<close>

definition downloadImage :: "world \<Rightarrow> string \<Rightarrow> string \<Rightarrow> string option \<times> event list" where
  "downloadImage w url filepath =
     (case getImage w url of
        FetchError err \<Rightarrow> (Some err, [EvFetch url])
      | FetchBody data (Some err) \<Rightarrow> (Some err, [EvFetch url])
      | FetchBody data None \<Rightarrow> (writeFile w filepath, [EvFetch url, EvWriteFile filepath data]))"

definition outputDir_of :: "world \<Rightarrow> ImageGenerator \<Rightarrow> string \<Rightarrow> string" where
  "outputDir_of w g prompt =
     Join [g_OutputDir (ig_cfg g), format_stamp (now w) @ ''_'' @ sanitizeFilename prompt]"

definition GenerateSingle ::
  "world \<Rightarrow> ImageGenerator \<Rightarrow> string \<Rightarrow> string \<Rightarrow> GenResult \<times> event list" where
  "GenerateSingle w g platform prompt =
     (case map_of (generators g) platform of
        None \<Rightarrow>
          (\<lparr>gr_Platform = platform, gr_FilePath = [], gr_ImageURL = [], gr_Success = False,
            gr_Error = msg_platform_not_enabled, gr_GeneratedAt = now w\<rparr>, [])
      | Some gen \<Rightarrow>
          (case Generate w gen prompt (g_Width (ig_cfg g)) (g_Height (ig_cfg g)) of
             (Inl err, evs) \<Rightarrow>
               (\<lparr>gr_Platform = gen_Name gen, gr_FilePath = [], gr_ImageURL = [],
                 gr_Success = False, gr_Error = err, gr_GeneratedAt = now w\<rparr>, evs)
           | (Inr imageURL, evs) \<Rightarrow>
               (let outputDir = outputDir_of w g prompt;
                    filename = platform @ ''_'' @ show_int (Unix (now w)) @ ''.png'';
                    filepath = Join [outputDir, filename]
                in case downloadImage w imageURL filepath of
                     (Some err, evs') \<Rightarrow>
                       (\<lparr>gr_Platform = gen_Name gen, gr_FilePath = [], gr_ImageURL = [],
                         gr_Success = False, gr_Error = err, gr_GeneratedAt = now w\<rparr>,
                        evs @ [EvMkdirAll outputDir] @ evs')
                   | (None, evs') \<Rightarrow>
                       (\<lparr>gr_Platform = gen_Name gen, gr_FilePath = filepath,
                         gr_ImageURL = imageURL, gr_Success = True, gr_Error = [],
                         gr_GeneratedAt = now w\<rparr>,
                        evs @ [EvMkdirAll outputDir] @ evs'))))"

text \<open>
  The body of one goroutine of \<^verbatim>\<open>GenerateAll\<close>, for the entry \<open>(platform, generator)\<close>:
  the result it sends to the channel and the events it causes. A goroutine touches no
  state but its own result.
\<close>

definition generateWorker ::
  "world \<Rightarrow> ImageGenerator \<Rightarrow> string \<Rightarrow> string \<Rightarrow> string \<times> PlatformGenerator
    \<Rightarrow> GenResult \<times> event list" where
  "generateWorker w g outputDir prompt entry =
     (case entry of (platform, generator) \<Rightarrow>
        (case Generate w generator prompt (g_Width (ig_cfg g)) (g_Height (ig_cfg g)) of
           (Inl err, evs) \<Rightarrow>
             (\<lparr>gr_Platform = gen_Name generator, gr_FilePath = [], gr_ImageURL = [],
               gr_Success = False, gr_Error = err, gr_GeneratedAt = now w\<rparr>, evs)
         | (Inr imageURL, evs) \<Rightarrow>
             (let filename = platform @ ''_'' @ show_int (Unix (now w)) @ ''.png'';
                  filepath = Join [outputDir, filename]
              in case downloadImage w imageURL filepath of
                   (Some err, evs') \<Rightarrow>
                     (\<lparr>gr_Platform = gen_Name generator, gr_FilePath = [], gr_ImageURL = [],
                       gr_Success = False, gr_Error = err, gr_GeneratedAt = now w\<rparr>,
                      evs @ evs')
                 | (None, evs') \<Rightarrow>
                     (\<lparr>gr_Platform = gen_Name generator, gr_FilePath = filepath,
                       gr_ImageURL = imageURL, gr_Success = True, gr_Error = [],
                       gr_GeneratedAt = now w\<rparr>,
                      evs @ evs'))))"

text \<open>
  \<^verbatim>\<open>GenerateAll\<close> starts one goroutine per entry of \<open>generators\<close>, waits for all of
  them and drains the channel. The scheduler decides the order in which results arrive;
  the model lists them, and the events, in the order of \<open>generators\<close>, one of the orders
  the program can produce. With no generator the result is the \<^verbatim>\<open>nil\<close> slice.
\<close>

definition GenerateAll :: "world \<Rightarrow> ImageGenerator \<Rightarrow> string \<Rightarrow> GenResult list \<times> event list" where
  "GenerateAll w g prompt =
     (if generators g = [] then ([], [])
      else
        (let outputDir = outputDir_of w g prompt
         in (map (\<lambda>entry. fst (generateWorker w g outputDir prompt entry)) (generators g),
             EvMkdirAll outputDir #
             concat (map (\<lambda>entry. snd (generateWorker w g outputDir prompt entry))
                      (generators g)))))"

section \<open>The publisher package\<close>

type_synonym PlatformType = string

definition msg_failed_prefix :: string where
  "msg_failed_prefix =
    [CHR 0xE5, CHR 0xA4, CHR 0xB1, CHR 0xE8, CHR 0xB4, CHR 0xA5, CHR '':'', CHR '' '']"

definition msg_unsupported_platform :: string where
  "msg_unsupported_platform =
    [CHR 0xE6, CHR 0x9C, CHR 0xAA, CHR 0xE6, CHR 0x94, CHR 0xAF, CHR 0xE6, CHR 0x8C,
     CHR 0x81, CHR 0xE7, CHR 0x9A, CHR 0x84, CHR 0xE5, CHR 0xB9, CHR 0xB3, CHR 0xE5,
     CHR 0x8F, CHR 0xB0, CHR '':'', CHR '' '']"

definition msg_open_image_failed :: string where
  "msg_open_image_failed =
    [CHR 0xE6, CHR 0x89, CHR 0x93, CHR 0xE5, CHR 0xBC, CHR 0x80, CHR 0xE5, CHR 0x9B,
     CHR 0xBE, CHR 0xE7, CHR 0x89, CHR 0x87, CHR 0xE5, CHR 0xA4, CHR 0xB1, CHR 0xE8,
     CHR 0xB4, CHR 0xA5, CHR '':'', CHR '' '']"

definition msg_publish_failed :: string where
  "msg_publish_failed =
    [CHR 0xE5, CHR 0x8F, CHR 0x91, CHR 0xE5, CHR 0xB8, CHR 0x83, CHR 0xE5, CHR 0xA4,
     CHR 0xB1, CHR 0xE8, CHR 0xB4, CHR 0xA5, CHR '':'', CHR '' '']"

definition msg_publish_ok :: string where
  "msg_publish_ok =
    [CHR 0xE5, CHR 0x8F, CHR 0x91, CHR 0xE5, CHR 0xB8, CHR 0x83, CHR 0xE6, CHR 0x88,
     CHR 0x90, CHR 0xE5, CHR 0x8A, CHR 0x9F]"

definition msg_douyin_dev :: string where
  "msg_douyin_dev =
    [CHR 0xE6, CHR 0x8A, CHR 0x96, CHR 0xE9, CHR 0x9F, CHR 0xB3, CHR 0xE5, CHR 0x8F,
     CHR 0x91, CHR 0xE5, CHR 0xB8, CHR 0x83, CHR 0xE5, CHR 0x8A, CHR 0x9F, CHR 0xE8,
     CHR 0x83, CHR 0xBD, CHR 0xE5, CHR 0xBC, CHR 0x80, CHR 0xE5, CHR 0x8F, CHR 0x91,
     CHR 0xE4, CHR 0xB8, CHR 0xAD]"

definition msg_bilibili_dev :: string where
  "msg_bilibili_dev =
    [CHR ''B'', CHR 0xE7, CHR 0xAB, CHR 0x99, CHR 0xE5, CHR 0x8F, CHR 0x91, CHR 0xE5,
     CHR 0xB8, CHR 0x83, CHR 0xE5, CHR 0x8A, CHR 0x9F, CHR 0xE8, CHR 0x83, CHR 0xBD,
     CHR 0xE5, CHR 0xBC, CHR 0x80, CHR 0xE5, CHR 0x8F, CHR 0x91, CHR 0xE4, CHR 0xB8,
     CHR 0xAD]"

definition msg_no_api_url :: string where
  "msg_no_api_url =
    [CHR 0xE6, CHR 0x9C, CHR 0xAA, CHR 0xE9, CHR 0x85, CHR 0x8D, CHR 0xE7, CHR 0xBD,
     CHR 0xAE, CHR '' '', CHR ''A'', CHR ''P'', CHR ''I'', CHR '' '', CHR ''U'', CHR ''R'',
     CHR ''L'']"

text \<open>
  The implementations of the interface \<^verbatim>\<open>Platform\<close>, each with its fields:
  \<open>Xiaohongshu APIURL Cookies XSecToken\<close>, \<open>Douyin APIURL\<close>, \<open>Bilibili APIURL Cookie\<close>
  and \<open>CustomPlatform NameVal TypeVal APIURL AuthHeader\<close>.
\<close>

datatype Platform =
    Xiaohongshu string string string
  | Douyin string
  | Bilibili string string
  | CustomPlatform string PlatformType string string

definition NewXiaohongshu :: "string \<Rightarrow> string \<Rightarrow> string \<Rightarrow> Platform" where
  "NewXiaohongshu apiURL cookies xSecToken =
     Xiaohongshu (if apiURL = [] then ''http://127.0.0.1:18060/mcp'' else apiURL) cookies xSecToken"

text \<open>The method \<^verbatim>\<open>Type()\<close>.\<close>

fun Type :: "Platform \<Rightarrow> PlatformType" where
  "Type (Xiaohongshu apiURL cookies tok) = ''xiaohongshu''"
| "Type (Douyin apiURL) = ''douyin''"
| "Type (Bilibili apiURL cookie) = ''bilibili''"
| "Type (CustomPlatform nameVal typeVal apiURL authHeader) = typeVal"

text \<open>
  The method \<^verbatim>\<open>Publish(ctx, imgPath, title, content)\<close> of each implementation: the
  destination (\<open>Inr\<close>) or the error text (\<open>Inl\<close>).
\<close>

fun publish_to :: "world \<Rightarrow> Platform \<Rightarrow> string \<Rightarrow> string \<Rightarrow> string \<Rightarrow> string + string" where
  "publish_to w (Xiaohongshu apiURL cookies tok) imgPath title content =
     (case openFile w imgPath of
        Some err \<Rightarrow> Inl (msg_open_image_failed @ err)
      | None \<Rightarrow>
          (case newRequest w (apiURL @ ''/publish'') of
             Some err \<Rightarrow> Inl (msg_publish_failed @ err)
           | None \<Rightarrow> Inr msg_publish_ok))"
| "publish_to w (Douyin apiURL) imgPath title content = Inr msg_douyin_dev"
| "publish_to w (Bilibili apiURL cookie) imgPath title content = Inr msg_bilibili_dev"
| "publish_to w (CustomPlatform nameVal typeVal apiURL authHeader) imgPath title content =
     (if apiURL = [] then Inl msg_no_api_url
      else case openFile w imgPath of
             Some err \<Rightarrow> Inl err
           | None \<Rightarrow>
               (case newRequest w apiURL of
                  Some err \<Rightarrow> Inl err
                | None \<Rightarrow>
                    (case postForm w apiURL authHeader imgPath title content of
                       Inl err \<Rightarrow> Inl err
                     | Inr status \<Rightarrow>
                         if status \<ge> 400 then Inl (''HTTP '' @ show_int status)
                         else Inr msg_publish_ok)))"

text \<open>
  \<^verbatim>\<open>Manager\<close>: the Go map \<^verbatim>\<open>platforms\<close> as an association list, one entry per key.
\<close>

record Manager =
  platforms :: "(PlatformType \<times> Platform) list"

definition New_Manager :: Manager where
  "New_Manager = \<lparr>platforms = []\<rparr>"

definition Register :: "Manager \<Rightarrow> Platform \<Rightarrow> Manager" where
  "Register m p = m\<lparr>platforms := AList.update (Type p) p (platforms m)\<rparr>"

definition List :: "Manager \<Rightarrow> Platform list" where
  "List m = map snd (platforms m)"

text \<open>
  \<^verbatim>\<open>Manager.Publish\<close>. The event \<open>EvPublish t imgPath title content\<close> records that the
  adapter registered under \<open>t\<close> was called.
\<close>

definition Publish ::
  "world \<Rightarrow> Manager \<Rightarrow> PlatformType \<Rightarrow> string \<Rightarrow> string \<Rightarrow> string
    \<Rightarrow> (string + string) \<times> event list" where
  "Publish w m platformType imgPath title content =
     (case map_of (platforms m) platformType of
        None \<Rightarrow> (Inl (msg_unsupported_platform @ platformType), [])
      | Some p \<Rightarrow>
          (publish_to w p imgPath title content,
           [EvPublish platformType imgPath title content]))"

section \<open>Publish handler (\<^verbatim>\<open>handlePublish\<close>)\<close>

definition msg_image_not_found :: string where
  "msg_image_not_found =
    [CHR 0xE5, CHR 0x9B, CHR 0xBE, CHR 0xE7, CHR 0x89, CHR 0x87, CHR 0xE4, CHR 0xB8,
     CHR 0x8D, CHR 0xE5, CHR 0xAD, CHR 0x98, CHR 0xE5, CHR 0x9C, CHR 0xA8]"

definition msg_only_approved :: string where
  "msg_only_approved =
    [CHR 0xE5, CHR 0x8F, CHR 0xAA, CHR 0xE8, CHR 0x83, CHR 0xBD, CHR 0xE5, CHR 0x8F,
     CHR 0x91, CHR 0xE5, CHR 0xB8, CHR 0x83, CHR 0xE5, CHR 0xAE, CHR 0xA1, CHR 0xE6,
     CHR 0xA0, CHR 0xB8, CHR 0xE9, CHR 0x80, CHR 0x9A, CHR 0xE8, CHR 0xBF, CHR 0x87,
     CHR 0xE7, CHR 0x9A, CHR 0x84, CHR 0xE5, CHR 0x9B, CHR 0xBE, CHR 0xE7, CHR 0x89,
     CHR 0x87]"

record PublishRequest =
  pq_ImageID :: nat
  pq_Platforms :: "string list"
  pq_Title :: string
  pq_Content :: string

text \<open>
  The loop of \<^verbatim>\<open>handlePublish\<close> over \<^verbatim>\<open>platformsToUse\<close>, with the map \<^verbatim>\<open>results\<close>
  built so far.
\<close>

fun publishEach ::
  "world \<Rightarrow> Manager \<Rightarrow> string \<Rightarrow> string \<Rightarrow> string \<Rightarrow> string list
    \<Rightarrow> (string \<Rightarrow> string option) \<Rightarrow> (string \<Rightarrow> string option) \<times> event list" where
  "publishEach w m path title content [] results = (results, [])"
| "publishEach w m path title content (plat # rest) results =
     (case Publish w m plat path title content of
        (Inl err, evs) \<Rightarrow>
          after evs (publishEach w m path title content rest
                       (results(plat \<mapsto> msg_failed_prefix @ err)))
      | (Inr url, evs) \<Rightarrow>
          after evs (publishEach w m path title content rest (results(plat \<mapsto> url))))"

text \<open>
  \<^verbatim>\<open>handlePublish\<close>: \<open>db\<close> is the table \<^verbatim>\<open>images\<close> by primary key, \<open>bound\<close> the outcome
  of \<^verbatim>\<open>c.ShouldBindJSON\<close>.
\<close>

definition handlePublish ::
  "world \<Rightarrow> (nat \<Rightarrow> ImageRecord option) \<Rightarrow> Manager \<Rightarrow> string + PublishRequest
    \<Rightarrow> response \<times> event list" where
  "handlePublish w db pubManager bound =
     (case bound of
        Inl err \<Rightarrow> ((400, ErrorBody err), [])
      | Inr req \<Rightarrow>
          (case db (pq_ImageID req) of
             None \<Rightarrow> ((404, ErrorBody msg_image_not_found), [])
           | Some record \<Rightarrow>
               if rec_Status record \<noteq> ''approved'' then
                 ((400, ErrorBody msg_only_approved), [])
               else
                 (let platformsToUse =
                        (if pq_Platforms req = [] then map Type (List pubManager)
                         else pq_Platforms req);
                      out = publishEach w pubManager (rec_Path record) (pq_Title req)
                              (pq_Content req) platformsToUse Map.empty
                  in ((200, PublishOk (fst out)), snd out))))"

section \<open>Observations on traces\<close>

text \<open>The file writes of a trace, as pairs of path and content, in order.\<close>

fun writes :: "event list \<Rightarrow> (string \<times> string) list" where
  "writes [] = []"
| "writes (EvWriteFile path content # es) = (path, content) # writes es"
| "writes (e # es) = writes es"

text \<open>The number of status polls of a trace.\<close>

fun polls :: "event list \<Rightarrow> nat" where
  "polls [] = 0"
| "polls (EvPoll url auth # es) = Suc (polls es)"
| "polls (e # es) = polls es"

text \<open>The adapter calls of a trace, by platform type.\<close>

fun adapter_calls :: "event list \<Rightarrow> string list" where
  "adapter_calls [] = []"
| "adapter_calls (EvPublish t imgPath title content # es) = t # adapter_calls es"
| "adapter_calls (e # es) = adapter_calls es"


text \<open>The same, counting in the success token that comes with no URL.\<close>

fun goes_on :: "string \<Rightarrow> pollResponse \<Rightarrow> bool" where
  "goes_on ok PollTransportError = True"
| "goes_on ok (PollReply status urls) =
     (if status = ok then urls = [] else status \<noteq> ''FAILED'')"

text \<open>The status line \<^verbatim>\<open>generateModelScopeImage\<close> logs before it polls again.\<close>

fun status_log :: "string \<Rightarrow> pollResponse \<Rightarrow> event list" where
  "status_log n PollTransportError = []"
| "status_log n (PollReply status urls) = [EvLog n (LogTaskStatus status)]"

text \<open>The entry \<^verbatim>\<open>handlePublish\<close> stores for the outcome of one adapter.\<close>

fun outcome_text :: "string + string \<Rightarrow> string" where
  "outcome_text (Inl err) = msg_failed_prefix @ err"
| "outcome_text (Inr url) = url"

text \<open>The map of a \<^verbatim>\<open>handlePublish\<close> answer, empty for an error answer.\<close>

fun results_of :: "response \<Rightarrow> (string \<Rightarrow> string option)" where
  "results_of (code, PublishOk results) = results"
| "results_of (code, b) = Map.empty"

section \<open>Example inputs\<close>

definition ex_time :: Time where
  "ex_time = \<lparr>Year = 2026, Month = 2, Day = 20, Hour = 21, Minute = 56, Second = 54,
              Unix = 1771624614\<rparr>"

definition ex_platform :: "string \<Rightarrow> string \<Rightarrow> bool \<Rightarrow> PlatformConfig" where
  "ex_platform n key en =
     \<lparr>Name = n, EnvKey = [], APIKey = key, URL = ''https://api.example.com/v1'',
      Model = ''m'', Enabled = en, Description = []\<rparr>"

definition ex_cfg :: Config where
  "ex_cfg =
     \<lparr>ImageGen = \<lparr>OutputDir = ''/data/out'', LogDir = ''/data/log'',
                  Width = 1024, Height = 2048\<rparr>,
      Platforms = [(''siliconflow'', ex_platform ''SiliconFlow'' ''sk-1'' True),
                   (''openai'', ex_platform ''OpenAI'' ''sk-2'' True),
                   (''aliyun'', ex_platform ''Aliyun'' ''sk-3'' True),
                   (''modelscope'', ex_platform ''ModelScope'' ''sk-4'' True),
                   (''off'', ex_platform ''Off'' ''sk-5'' False)]\<rparr>"

text \<open>
  A world in which every request is answered well: a task is pending for two polls and
  then succeeds, with the success token of the provider asked.
\<close>

definition ex_world :: world where
  "ex_world =
     \<lparr>now = ex_time,
      postSync = (\<lambda>r. SyncReply 200 ''{}'' (Inr [''http://img/1''])),
      postTask = (\<lambda>r. SubmitReply False ''task-1''),
      getTask = (\<lambda>u i. if i < 2 then PollReply ''PENDING'' []
                        else PollReply (if HasPrefix u ''https://dashscope''
                                        then ''SUCCEEDED'' else ''SUCCEED'') [''http://img/2'']),
      getImage = (\<lambda>u. if u = ''http://img/bad'' then FetchError ''refused''
                       else if u = ''http://img/empty'' then FetchBody [] None
                       else FetchBody ''PNG'' None),
      writeFile = (\<lambda>p. None),
      openFile = (\<lambda>p. if p = ''/data/out/gone.png'' then Some ''no such file'' else None),
      newRequest = (\<lambda>u. None),
      postForm = (\<lambda>u a i t c. Inr 200)\<rparr>"


text \<open>
  A world in which the first poll answers with the success token and no URL, and the
  second with a URL.
\<close>

definition ex_world_late :: world where
  "ex_world_late =
     ex_world\<lparr>getTask := (\<lambda>u i. PollReply (if HasPrefix u ''https://dashscope''
                                             then ''SUCCEEDED'' else ''SUCCEED'')
                                  (if i = 0 then [] else [''http://img/2'']))\<rparr>"

text \<open>
  A world in which the first poll already answers with the success token that the
  poller of provider \<open>k\<close> looks for.
\<close>

definition ex_world_ok :: "string \<Rightarrow> world" where
  "ex_world_ok k =
     ex_world\<lparr>getTask := (\<lambda>u i. PollReply (if k = ''aliyun'' then ''SUCCEEDED'' else ''SUCCEED'')
                                  [''http://img/2''])\<rparr>"

text \<open>A world in which every poll answers with the success token and no URL.\<close>

definition ex_world_empty :: world where
  "ex_world_empty =
     ex_world\<lparr>getTask := (\<lambda>u i. PollReply (if HasPrefix u ''https://dashscope''
                                              then ''SUCCEEDED'' else ''SUCCEED'') [])\<rparr>"

text \<open>
  The configuration file of the README (\<^verbatim>\<open>siliconflow\<close> switched on, \<^verbatim>\<open>openai\<close>
  switched off, no key in the file) and an environment with a key for \<^verbatim>\<open>openai\<close> only.
\<close>

definition ex_yaml :: Config where
  "ex_yaml =
     \<lparr>ImageGen = \<lparr>OutputDir = ''/data/out'', LogDir = ''/data/log'', Width = 0, Height = 0\<rparr>,
      Platforms =
        [(''siliconflow'',
            \<lparr>Name = ''SiliconFlow'', EnvKey = ''SILICONFLOW_API_KEY'', APIKey = [],
             URL = ''https://api.siliconflow.cn/v1'', Model = ''Kwai-Kolors/Kolors'',
             Enabled = True, Description = []\<rparr>),
         (''openai'',
            \<lparr>Name = ''OpenAI DALL-E 3'', EnvKey = ''OPENAI_API_KEY'', APIKey = [],
             URL = ''https://api.openai.com/v1'', Model = ''dall-e-3'',
             Enabled = False, Description = []\<rparr>)]\<rparr>"

definition ex_getenv :: "string \<Rightarrow> string" where
  "ex_getenv name = (if name = ''OPENAI_API_KEY'' then ''sk-2'' else [])"

definition ex_loaded :: Config where
  "ex_loaded = (case loadConfig (Inr ex_yaml) ex_getenv of Inr c \<Rightarrow> c | Inl err \<Rightarrow> ex_yaml)"

text \<open>A generator with two providers under one display name, and one with two names.\<close>

definition ex_gen_cfg :: GenConfig where
  "ex_gen_cfg = \<lparr>g_OutputDir = ''/data/out'', g_Width = 1024, g_Height = 2048\<rparr>"

definition ex_generator :: ImageGenerator where
  "ex_generator =
     New ex_gen_cfg [(''a'', ex_platform ''Same'' ''sk-1'' True),
                     (''b'', ex_platform ''Same'' ''sk-2'' True)]"

definition ex_generator2 :: ImageGenerator where
  "ex_generator2 = New ex_gen_cfg (getEnabledPlatforms ex_cfg)"

text \<open>A publish manager, the image table and two requests.\<close>

definition ex_manager :: Manager where
  "ex_manager =
     Register (Register (Register New_Manager (NewXiaohongshu [] ''c'' ''t'')) (Douyin []))
       (CustomPlatform ''Blog'' ''custom'' [] [])"

definition ex_record :: "nat \<Rightarrow> string \<Rightarrow> string \<Rightarrow> ImageRecord" where
  "ex_record i path status =
     \<lparr>rec_ID = i, rec_Name = ''215654.png'', rec_Date = ''2026-02-20'', rec_Path = path,
      rec_Platform = ''SiliconFlow'', rec_Model = ''m'', rec_Prompt = ''a cat'',
      rec_Status = status, rec_Note = []\<rparr>"

definition ex_db :: "nat \<Rightarrow> ImageRecord option" where
  "ex_db i =
     (if i = 1 then Some (ex_record 1 ''/data/out/a.png'' ''pending'')
      else if i = 2 then Some (ex_record 2 ''/data/out/b.png'' ''approved'')
      else if i = 3 then Some (ex_record 3 ''/data/out/gone.png'' ''approved'')
      else None)"

definition ex_publish :: "nat \<Rightarrow> string list \<Rightarrow> PublishRequest" where
  "ex_publish i ps = \<lparr>pq_ImageID = i, pq_Platforms = ps, pq_Title = ''t'', pq_Content = ''c''\<rparr>"

section \<open>Facts about traces and the polling loops\<close>

lemma polls_append: "polls (xs @ ys) = polls xs + polls ys"
  by (induction xs rule: polls.induct) simp_all


lemma writes_append: "writes (xs @ ys) = writes xs @ writes ys"
  by (induction xs rule: writes.induct) simp_all

lemma fst_after: "fst (after evs r) = fst r"
  by (simp add: after_def)

lemma snd_after: "snd (after evs r) = evs @ snd r"
  by (simp add: after_def)


lemma aliyunPoll_goes_on:
  assumes "i < 30" and "goes_on ''SUCCEEDED'' (getTask w (aliyun_task_url t) i)"
  shows "aliyunPoll w cfg p t i =
           after [EvSleep 2, EvPoll (aliyun_task_url t) (''Bearer '' @ APIKey p)]
             (aliyunPoll w cfg p t (Suc i))"
  using assms
  by (subst aliyunPoll.simps) (auto split: pollResponse.splits if_splits)

lemma aliyunPoll_exhausts:
  assumes "\<forall>j. i \<le> j \<and> j < 30 \<longrightarrow> goes_on ''SUCCEEDED'' (getTask w (aliyun_task_url t) j)"
  shows "fst (aliyunPoll w cfg p t i) = None \<and>
         polls (snd (aliyunPoll w cfg p t i)) = 30 - i \<and>
         last (snd (aliyunPoll w cfg p t i)) = EvLog (Name p) LogTimeout"
  using assms
proof (induction "30 - i" arbitrary: i)
  case 0
  then have "\<not> i < 30" by simp
  then show ?case by (subst (1 2 3) aliyunPoll.simps) simp
next
  case (Suc n)
  then have lt: "i < 30" by simp
  have go: "goes_on ''SUCCEEDED'' (getTask w (aliyun_task_url t) i)"
    using Suc.prems lt by simp
  have n: "n = 30 - Suc i" using Suc.hyps(2) by simp
  have rest: "\<forall>j. Suc i \<le> j \<and> j < 30 \<longrightarrow> goes_on ''SUCCEEDED'' (getTask w (aliyun_task_url t) j)"
    using Suc.prems by simp
  note ih = Suc.hyps(1) [OF n rest]
  have ne: "snd (aliyunPoll w cfg p t (Suc i)) \<noteq> []"
    by (subst aliyunPoll.simps) (auto simp: after_def split: pollResponse.splits)
  show ?case
    using ih lt ne Suc.hyps(2)
    by (simp add: aliyunPoll_goes_on [OF lt go] fst_after snd_after)
qed

lemma aliyunPoll_succeeds:
  assumes "i < 30" and "getTask w (aliyun_task_url t) i = PollReply ''SUCCEEDED'' (u # us)"
  shows "aliyunPoll w cfg p t i =
           after [EvSleep 2, EvPoll (aliyun_task_url t) (''Bearer '' @ APIKey p)]
             (downloadAndSave w cfg p ''aliyun'' u)"
  using assms by (subst aliyunPoll.simps) simp

lemma polls_status_log: "polls (status_log n r) = 0"
  by (cases r) simp_all

lemma modelScopePoll_goes_on:
  assumes "i < 60" and "goes_on ''SUCCEED'' (getTask w (modelscope_task_url p t) i)"
  shows "modelScopePoll w cfg p t i =
           after ([EvSleep 3, EvPoll (modelscope_task_url p t) (''Bearer '' @ APIKey p)] @
                  status_log (Name p) (getTask w (modelscope_task_url p t) i))
             (modelScopePoll w cfg p t (Suc i))"
proof (cases "getTask w (modelscope_task_url p t) i")
  case PollTransportError
  with assms(1) show ?thesis
    by (subst modelScopePoll.simps) simp
next
  case (PollReply status urls)
  with assms show ?thesis
    by (subst modelScopePoll.simps) (simp add: after_def split: if_splits)
qed

lemma modelScopePoll_exhausts:
  assumes "\<forall>j. i \<le> j \<and> j < 60 \<longrightarrow> goes_on ''SUCCEED'' (getTask w (modelscope_task_url p t) j)"
  shows "fst (modelScopePoll w cfg p t i) = None \<and>
         polls (snd (modelScopePoll w cfg p t i)) = 60 - i \<and>
         last (snd (modelScopePoll w cfg p t i)) = EvLog (Name p) LogTimeout"
  using assms
proof (induction "60 - i" arbitrary: i)
  case 0
  then have "\<not> i < 60" by simp
  then show ?case by (subst (1 2 3) modelScopePoll.simps) simp
next
  case (Suc n)
  then have lt: "i < 60" by simp
  have go: "goes_on ''SUCCEED'' (getTask w (modelscope_task_url p t) i)"
    using Suc.prems lt by simp
  have n: "n = 60 - Suc i" using Suc.hyps(2) by simp
  have rest: "\<forall>j. Suc i \<le> j \<and> j < 60 \<longrightarrow> goes_on ''SUCCEED'' (getTask w (modelscope_task_url p t) j)"
    using Suc.prems by simp
  note ih = Suc.hyps(1) [OF n rest]
  have ne: "snd (modelScopePoll w cfg p t (Suc i)) \<noteq> []"
    by (subst modelScopePoll.simps) (simp add: after_def split: pollResponse.splits)
  show ?case
    using ih lt ne Suc.hyps(2)
    by (simp add: modelScopePoll_goes_on [OF lt go] fst_after snd_after polls_append
        polls_status_log)
qed

lemma modelScopePoll_succeeds:
  assumes "i < 60" and "getTask w (modelscope_task_url p t) i = PollReply ''SUCCEED'' (u # us)"
  shows "modelScopePoll w cfg p t i =
           after [EvSleep 3, EvPoll (modelscope_task_url p t) (''Bearer '' @ APIKey p)]
             (downloadAndSave w cfg p ''modelscope'' u)"
  using assms by (subst modelScopePoll.simps) simp


section \<open>Artifact path\<close>

text \<open>
  C1. The claim: the artifact of a successful invocation lies at
  \<open>outputRoot/YYYY-MM-DD/providerKey/HHMMSS.png\<close>, with the key of the provider that
  was invoked. The code passes the fixed directory name \<^verbatim>\<open>siliconflow\<close> for every
  synchronous provider: invoked for the enabled provider \<^verbatim>\<open>openai\<close> at
  2026-02-20T21:56:54 with output root \<^verbatim>\<open>/data/out\<close>, \<open>generateImage\<close> returns the
  path \<^verbatim>\<open>/data/out/2026-02-20/siliconflow/215654.png\<close> and not the path under
  \<^verbatim>\<open>openai\<close>, while the asynchronous provider \<^verbatim>\<open>aliyun\<close> gets its own directory.
\<close>

theorem sync_provider_path_is_under_siliconflow:
  "map_option res_FilePath (fst (generateImage ex_world ex_cfg ''openai'' ''a cat'' []))
     = Some ''/data/out/2026-02-20/siliconflow/215654.png'' \<and>
   map_option res_FilePath (fst (generateImage ex_world ex_cfg ''openai'' ''a cat'' []))
     \<noteq> Some ''/data/out/2026-02-20/openai/215654.png'' \<and>
   map_option res_FilePath (fst (generateImage ex_world ex_cfg ''aliyun'' ''a cat'' []))
     = Some ''/data/out/2026-02-20/aliyun/215654.png''"
  by code_simp

section \<open>The asynchronous pollers\<close>



text \<open>
  C3 (amended). A poll that answers with the success token and an empty URL list is
  not a success, and it is not a failure either: the loop goes on to the next attempt.
  Only when every attempt up to the cap answers so does the poller fail, by time-out.
\<close>

theorem success_without_url_keeps_polling:
  "(i < 30 \<and> getTask w (aliyun_task_url t) i = PollReply ''SUCCEEDED'' [] \<longrightarrow>
      aliyunPoll w cfg p t i =
        after [EvSleep 2, EvPoll (aliyun_task_url t) (''Bearer '' @ APIKey p)]
          (aliyunPoll w cfg p t (Suc i)))
   \<and> (i' < 60 \<and> getTask w (modelscope_task_url p t) i' = PollReply ''SUCCEED'' [] \<longrightarrow>
      modelScopePoll w cfg p t i' =
        after [EvSleep 3, EvPoll (modelscope_task_url p t) (''Bearer '' @ APIKey p),
               EvLog (Name p) (LogTaskStatus ''SUCCEED'')]
          (modelScopePoll w cfg p t (Suc i')))
   \<and> ((\<forall>j<30. getTask w' (aliyun_task_url t) j = PollReply ''SUCCEEDED'' []) \<longrightarrow>
      fst (aliyunPoll w' cfg p t 0) = None \<and>
      last (snd (aliyunPoll w' cfg p t 0)) = EvLog (Name p) LogTimeout)
   \<and> ((\<forall>j<60. getTask w' (modelscope_task_url p t) j = PollReply ''SUCCEED'' []) \<longrightarrow>
      fst (modelScopePoll w' cfg p t 0) = None \<and>
      last (snd (modelScopePoll w' cfg p t 0)) = EvLog (Name p) LogTimeout)"
proof (intro conjI impI)
  assume "i < 30 \<and> getTask w (aliyun_task_url t) i = PollReply ''SUCCEEDED'' []"
  then show "aliyunPoll w cfg p t i =
        after [EvSleep 2, EvPoll (aliyun_task_url t) (''Bearer '' @ APIKey p)]
          (aliyunPoll w cfg p t (Suc i))"
    by (intro aliyunPoll_goes_on) simp_all
next
  assume a: "i' < 60 \<and> getTask w (modelscope_task_url p t) i' = PollReply ''SUCCEED'' []"
  then have "goes_on ''SUCCEED'' (getTask w (modelscope_task_url p t) i')" by simp
  from modelScopePoll_goes_on [OF _ this, of cfg] a
  show "modelScopePoll w cfg p t i' =
        after [EvSleep 3, EvPoll (modelscope_task_url p t) (''Bearer '' @ APIKey p),
               EvLog (Name p) (LogTaskStatus ''SUCCEED'')]
          (modelScopePoll w cfg p t (Suc i'))"
    by simp
next
  assume "\<forall>j<30. getTask w' (aliyun_task_url t) j = PollReply ''SUCCEEDED'' []"
  then have g: "\<forall>j. 0 \<le> j \<and> j < 30 \<longrightarrow> goes_on ''SUCCEEDED'' (getTask w' (aliyun_task_url t) j)"
    by simp
  from aliyunPoll_exhausts [OF g, of cfg p]
  show "fst (aliyunPoll w' cfg p t 0) = None"
    and "last (snd (aliyunPoll w' cfg p t 0)) = EvLog (Name p) LogTimeout"
    by simp_all
next
  assume "\<forall>j<60. getTask w' (modelscope_task_url p t) j = PollReply ''SUCCEED'' []"
  then have g: "\<forall>j. 0 \<le> j \<and> j < 60 \<longrightarrow> goes_on ''SUCCEED'' (getTask w' (modelscope_task_url p t) j)"
    by simp
  from modelScopePoll_exhausts [OF g, of cfg]
  show "fst (modelScopePoll w' cfg p t 0) = None"
    and "last (snd (modelScopePoll w' cfg p t 0)) = EvLog (Name p) LogTimeout"
    by simp_all
qed

theorem success_without_url_keeps_polling_witness:
  "((0::nat) < 30 \<and>
    getTask ex_world_late (aliyun_task_url ''task-1'') 0 = PollReply ''SUCCEEDED'' []) \<and>
   ((0::nat) < 60 \<and>
    getTask ex_world_late (modelscope_task_url (ex_platform ''P'' ''sk'' True) ''task-1'') 0
       = PollReply ''SUCCEED'' []) \<and>
   aliyunPoll ex_world_late ex_cfg (ex_platform ''P'' ''sk'' True) ''task-1'' 0 =
     after [EvSleep 2, EvPoll (aliyun_task_url ''task-1'')
                         (''Bearer '' @ APIKey (ex_platform ''P'' ''sk'' True))]
       (aliyunPoll ex_world_late ex_cfg (ex_platform ''P'' ''sk'' True) ''task-1'' (Suc 0)) \<and>
   fst (aliyunPoll ex_world_empty ex_cfg (ex_platform ''P'' ''sk'' True) ''task-1'' 0) = None \<and>
   fst (modelScopePoll ex_world_empty ex_cfg (ex_platform ''P'' ''sk'' True) ''task-1'' 0) = None"
proof -
  have h1: "(0::nat) < 30 \<and>
      getTask ex_world_late (aliyun_task_url ''task-1'') 0 = PollReply ''SUCCEEDED'' []"
    by (simp add: ex_world_late_def ex_world_def aliyun_task_url_def)
  have h2: "(0::nat) < 60 \<and>
      getTask ex_world_late (modelscope_task_url (ex_platform ''P'' ''sk'' True) ''task-1'') 0
       = PollReply ''SUCCEED'' []"
    by (simp add: ex_world_late_def ex_world_def modelscope_task_url_def ex_platform_def)
  have h3: "\<forall>j<30. getTask ex_world_empty (aliyun_task_url ''task-1'') j
      = PollReply ''SUCCEEDED'' []"
    by (simp add: ex_world_empty_def ex_world_def aliyun_task_url_def)
  have h4: "\<forall>j<60. getTask ex_world_empty
              (modelscope_task_url (ex_platform ''P'' ''sk'' True) ''task-1'') j
       = PollReply ''SUCCEED'' []"
    by (simp add: ex_world_empty_def ex_world_def modelscope_task_url_def ex_platform_def)
  from success_without_url_keeps_polling [of 0 ex_world_late "''task-1''" ex_cfg
      "ex_platform ''P'' ''sk'' True" 0 ex_world_empty] h1 h2 h3 h4
  show ?thesis by blast
qed

text \<open>
  The claim as stated fails: after a first poll with the success token and no URL, a
  second poll with a URL makes the poller succeed.
\<close>

theorem success_without_url_then_success:
  "getTask ex_world_late (aliyun_task_url ''task-1'') 0 = PollReply ''SUCCEEDED'' [] \<and>
   map_option res_Success
     (fst (aliyunPoll ex_world_late ex_cfg (ex_platform ''Aliyun'' ''sk-3'' True) ''task-1'' 0))
     = Some True \<and>
   polls (snd (aliyunPoll ex_world_late ex_cfg (ex_platform ''Aliyun'' ''sk-3'' True) ''task-1'' 0)) = 2"
  by code_simp

section \<open>Artifact store\<close>

text \<open>
  C4 (amended). If the fetch fails, \<open>downloadAndSave\<close> returns \<^verbatim>\<open>nil\<close> and writes no
  file. If the fetch returns a body, empty or not, it reports success and issues exactly
  one write, of the whole body as read, to the path it returns, and no write comes
  before the fetch.
\<close>

theorem persist_write_after_fetch:
  "(getImage w u = FetchError err \<longrightarrow>
      fst (downloadAndSave w cfg p k u) = None \<and>
      writes (snd (downloadAndSave w cfg p k u)) = [])
   \<and> (getImage w u' = FetchBody content rerr \<longrightarrow>
      (\<exists>r. fst (downloadAndSave w cfg p k u') = Some r \<and> res_Success r \<and>
           writes (snd (downloadAndSave w cfg p k u')) = [(res_FilePath r, content)] \<and>
           writes (takeWhile (\<lambda>e. e \<noteq> EvFetch u') (snd (downloadAndSave w cfg p k u'))) = [] \<and>
           EvFetch u' \<in> set (snd (downloadAndSave w cfg p k u'))))"
  by (simp add: downloadAndSave_def Let_def)

theorem persist_write_after_fetch_witness:
  "getImage ex_world ''http://img/bad'' = FetchError ''refused'' \<and>
   getImage ex_world ''http://img/1'' = FetchBody ''PNG'' None \<and>
   fst (downloadAndSave ex_world ex_cfg (ex_platform ''OpenAI'' ''sk-2'' True) ''openai'' ''http://img/bad'') = None \<and>
   writes (snd (downloadAndSave ex_world ex_cfg (ex_platform ''OpenAI'' ''sk-2'' True) ''openai'' ''http://img/bad'')) = [] \<and>
   writes (snd (downloadAndSave ex_world ex_cfg (ex_platform ''OpenAI'' ''sk-2'' True) ''openai'' ''http://img/1''))
     = [(''/data/out/2026-02-20/openai/215654.png'', ''PNG'')]"
proof -
  have h1: "getImage ex_world ''http://img/bad'' = FetchError ''refused''"
    by (simp add: ex_world_def)
  have h2: "getImage ex_world ''http://img/1'' = FetchBody ''PNG'' None"
    by (simp add: ex_world_def)
  have p: "res_FilePath (the (fst (downloadAndSave ex_world ex_cfg (ex_platform ''OpenAI'' ''sk-2'' True) ''openai'' ''http://img/1'')))
     = ''/data/out/2026-02-20/openai/215654.png''"
    by code_simp
  from persist_write_after_fetch [of ex_world "''http://img/bad''" "''refused''" ex_cfg
      "ex_platform ''OpenAI'' ''sk-2'' True" "''openai''" "''http://img/1''" "''PNG''" None] h1 h2 p
  show ?thesis by auto
qed

text \<open>
  The claim as stated fails: an empty body is saved as an empty file and reported as
  a success.
\<close>

theorem empty_body_is_saved:
  "getImage ex_world ''http://img/empty'' = FetchBody [] None \<and>
   map_option res_Success
     (fst (downloadAndSave ex_world ex_cfg (ex_platform ''SiliconFlow'' ''sk-1'' True)
            ''siliconflow'' ''http://img/empty'')) = Some True \<and>
   writes (snd (downloadAndSave ex_world ex_cfg (ex_platform ''SiliconFlow'' ''sk-1'' True)
            ''siliconflow'' ''http://img/empty''))
     = [(''/data/out/2026-02-20/siliconflow/215654.png'', [])]"
  by code_simp

section \<open>Provider registry and the enabled flag\<close>

lemma loadConfig_platforms:
  "loadConfig (Inr c) getenv = Inr c' \<Longrightarrow>
   Platforms c' = map (\<lambda>(key, p). (key, if getenv (EnvKey p) \<noteq> []
                             then p\<lparr>APIKey := getenv (EnvKey p), Enabled := True\<rparr>
                             else p)) (Platforms c)"
  by (auto simp: loadConfig_def Let_def split: if_splits)

text \<open>
  C5 (amended). After configuration load, every descriptor whose environment variable
  holds a non-empty credential is enabled and carries that credential, and every other
  descriptor keeps the credential and the flag of the configuration file.
  \<open>getEnabledPlatforms\<close> lists exactly the descriptors that are enabled and have a
  non-empty credential. For a key that is missing or whose enabled flag is false,
  \<open>generateImage\<close> returns \<^verbatim>\<open>nil\<close> and asks nothing of the world.
\<close>

theorem enabled_flag_gates_invocation:
  "(loadConfig (Inr c) getenv = Inr c' \<and> map_of (Platforms c) key = Some p \<longrightarrow>
      (\<exists>p'. map_of (Platforms c') key = Some p' \<and>
        (if getenv (EnvKey p) \<noteq> [] then Enabled p' \<and> APIKey p' = getenv (EnvKey p)
         else p' = p)))
   \<and> ((k, q) \<in> set (getEnabledPlatforms cfg) \<longleftrightarrow>
        (k, q) \<in> set (Platforms cfg) \<and> Enabled q \<and> APIKey q \<noteq> [])
   \<and> (map_of (Platforms cfg) k' = None \<or>
      (\<exists>q'. map_of (Platforms cfg) k' = Some q' \<and> \<not> Enabled q') \<longrightarrow>
        generateImage w cfg k' prompt sz = (None, []))"
proof (intro conjI impI)
  assume a: "loadConfig (Inr c) getenv = Inr c' \<and> map_of (Platforms c) key = Some p"
  let ?f = "\<lambda>p. if getenv (EnvKey p) \<noteq> []
                then p\<lparr>APIKey := getenv (EnvKey p), Enabled := True\<rparr>
                else p"
  have "Platforms c' = map (\<lambda>(key, p). (key, ?f p)) (Platforms c)"
    using a loadConfig_platforms by blast
  then have "map_of (Platforms c') key = map_option ?f (map_of (Platforms c) key)"
    by (simp add: map_of_map)
  with a show "\<exists>p'. map_of (Platforms c') key = Some p' \<and>
        (if getenv (EnvKey p) \<noteq> [] then Enabled p' \<and> APIKey p' = getenv (EnvKey p)
         else p' = p)"
    by simp
next
  show "(k, q) \<in> set (getEnabledPlatforms cfg) \<longleftrightarrow>
        (k, q) \<in> set (Platforms cfg) \<and> Enabled q \<and> APIKey q \<noteq> []"
    by (auto simp: getEnabledPlatforms_def)
next
  assume "map_of (Platforms cfg) k' = None \<or>
      (\<exists>q'. map_of (Platforms cfg) k' = Some q' \<and> \<not> Enabled q')"
  then show "generateImage w cfg k' prompt sz = (None, [])"
    by (auto simp: generateImage_def)
qed

theorem enabled_flag_gates_invocation_witness:
  "(loadConfig (Inr ex_yaml) ex_getenv = Inr ex_loaded \<and>
    map_of (Platforms ex_yaml) ''openai'' = Some
            \<lparr>Name = ''OpenAI DALL-E 3'', EnvKey = ''OPENAI_API_KEY'', APIKey = [],
             URL = ''https://api.openai.com/v1'', Model = ''dall-e-3'',
             Enabled = False, Description = []\<rparr>) \<and>
   map_option Enabled (map_of (Platforms ex_loaded) ''openai'') = Some True \<and>
   map_option APIKey (map_of (Platforms ex_loaded) ''openai'') = Some ''sk-2'' \<and>
   ((''openai'', ex_platform ''OpenAI'' ''sk-2'' True) \<in> set (getEnabledPlatforms ex_cfg)) \<and>
   (\<exists>q'. map_of (Platforms ex_cfg) ''off'' = Some q' \<and> \<not> Enabled q') \<and>
   generateImage ex_world ex_cfg ''off'' ''a cat'' [] = (None, [])"
proof -
  let ?p = "\<lparr>Name = ''OpenAI DALL-E 3'', EnvKey = ''OPENAI_API_KEY'', APIKey = [],
             URL = ''https://api.openai.com/v1'', Model = ''dall-e-3'',
             Enabled = False, Description = []\<rparr>"
  have h1: "loadConfig (Inr ex_yaml) ex_getenv = Inr ex_loaded \<and>
            map_of (Platforms ex_yaml) ''openai'' = Some ?p"
    by (simp add: ex_loaded_def loadConfig_def Let_def ex_yaml_def)
  have h3: "\<exists>q'. map_of (Platforms ex_cfg) ''off'' = Some q' \<and> \<not> Enabled q'"
    by (simp add: ex_cfg_def ex_platform_def)
  have h4: "(''openai'', ex_platform ''OpenAI'' ''sk-2'' True) \<in> set (Platforms ex_cfg) \<and>
      Enabled (ex_platform ''OpenAI'' ''sk-2'' True) \<and>
      APIKey (ex_platform ''OpenAI'' ''sk-2'' True) \<noteq> []"
    by (simp add: ex_cfg_def ex_platform_def)
  have h5: "ex_getenv (EnvKey ?p) = ''sk-2''"
    by (simp add: ex_getenv_def)
  note T = enabled_flag_gates_invocation [where c = ex_yaml and getenv = ex_getenv
      and c' = ex_loaded and key = "''openai''" and p = ?p and k = "''openai''"
      and q = "ex_platform ''OpenAI'' ''sk-2'' True" and cfg = ex_cfg and k' = "''off''"
      and w = ex_world and prompt = "''a cat''" and sz = "[]"]
  from T h1 h5 obtain p' where
    p': "map_of (Platforms ex_loaded) ''openai'' = Some p'" "Enabled p'" "APIKey p' = ''sk-2''"
    by auto
  from T h4 have e: "(''openai'', ex_platform ''OpenAI'' ''sk-2'' True)
      \<in> set (getEnabledPlatforms ex_cfg)"
    by blast
  from T h3 have g: "generateImage ex_world ex_cfg ''off'' ''a cat'' [] = (None, [])"
    by blast
  show ?thesis using h1 h3 p' e g by simp
qed

text \<open>
  The claim as stated fails: loaded from the configuration file of the README with no
  key for \<^verbatim>\<open>siliconflow\<close> in the environment, that descriptor is enabled with an empty
  credential, and \<open>generateImage\<close> sends its request with an empty bearer token.
\<close>

theorem enabled_with_empty_credential:
  "map_option Enabled (map_of (Platforms ex_loaded) ''siliconflow'') = Some True \<and>
   map_option APIKey (map_of (Platforms ex_loaded) ''siliconflow'') = Some [] \<and>
   hd (snd (generateImage ex_world ex_loaded ''siliconflow'' ''a cat'' [])) =
     EvPost \<lparr>req_url = ''https://api.siliconflow.cn/v1/images/generations'',
             req_auth = ''Bearer '',
             req_body = SyncBody ''Kwai-Kolors/Kolors'' ''a cat'' ''512x2048''\<rparr>"
  by code_simp

section \<open>Single-target generation\<close>

lemma downloadAndSave_ok:
  assumes "getImage w u = FetchBody content rerr"
  shows "\<exists>r. fst (downloadAndSave w cfg p d u) = Some r \<and> res_Success r"
  using assms by (simp add: downloadAndSave_def Let_def)

lemma generateImage_succeeds_when_world_answers:
  assumes cfg: "map_of (Platforms cfg) k = Some p" "Enabled p"
    and sync: "\<And>r. postSync w r = SyncReply 200 raw (Inr [u1])"
    and task: "\<And>r. postTask w r = SubmitReply False (c # t)"
    and poll: "\<And>u i. getTask w u i =
        PollReply (if k = ''aliyun'' then ''SUCCEEDED'' else ''SUCCEED'') [u2]"
    and img1: "getImage w u1 = FetchBody content1 None"
    and img2: "getImage w u2 = FetchBody content2 None"
  shows "\<exists>r. fst (generateImage w cfg k prompt sz) = Some r \<and> res_Success r"
proof -
  consider (a) "k = ''aliyun''" | (m) "k \<noteq> ''aliyun''" "k = ''modelscope''"
    | (s) "k \<noteq> ''aliyun''" "k \<noteq> ''modelscope''"
    by blast
  then show ?thesis
  proof cases
    case a
    have "aliyunPoll w cfg p (c # t) 0 =
        after [EvSleep 2, EvPoll (aliyun_task_url (c # t)) (''Bearer '' @ APIKey p)]
          (downloadAndSave w cfg p ''aliyun'' u2)"
      by (rule aliyunPoll_succeeds [where us = "[]"]) (use poll a in simp_all)
    then have "fst (generateImage w cfg k prompt sz)
        = fst (downloadAndSave w cfg p ''aliyun'' u2)"
      using cfg a by (simp add: generateImage_def generateAliyunImage_def Let_def after_def task)
    then show ?thesis
      using downloadAndSave_ok [OF img2] by simp
  next
    case m
    have "modelScopePoll w cfg p (c # t) 0 =
        after [EvSleep 3, EvPoll (modelscope_task_url p (c # t)) (''Bearer '' @ APIKey p)]
          (downloadAndSave w cfg p ''modelscope'' u2)"
      by (rule modelScopePoll_succeeds [where us = "[]"]) (use poll m in simp_all)
    then have "fst (generateImage w cfg k prompt sz)
        = fst (downloadAndSave w cfg p ''modelscope'' u2)"
      using cfg m
      by (simp add: generateImage_def generateModelScopeImage_def Let_def after_def task)
    then show ?thesis
      using downloadAndSave_ok [OF img2] by simp
  next
    case s
    then have "fst (generateImage w cfg k prompt sz)
        = fst (downloadAndSave w cfg p ''siliconflow'' u1)"
      using cfg by (simp add: generateImage_def generateSyncImage_def Let_def after_def sync)
    then show ?thesis
      using downloadAndSave_ok [OF img1] by simp
  qed
qed

lemma generateImage_can_succeed:
  assumes "map_of (Platforms cfg) k = Some p" and "Enabled p"
  shows "\<exists>r. fst (generateImage (ex_world_ok k) cfg k prompt sz) = Some r \<and> res_Success r"
  by (rule generateImage_succeeds_when_world_answers [OF assms,
        where raw = "''{}''" and ?u1.0 = "''http://img/1''" and c = "CHR ''t''"
          and t = "''ask-1''" and ?u2.0 = "''http://img/2''" and ?content1.0 = "''PNG''"
          and ?content2.0 = "''PNG''"])
     (simp_all add: ex_world_ok_def ex_world_def)

text \<open>
  C6 (amended). With a missing or disabled key \<open>generateImage\<close> returns \<^verbatim>\<open>nil\<close>, a
  result with no error detail, and asks nothing of the world; \<open>handleGenerate\<close> answers
  that with status 500 and an error message. \<open>GenerateSingle\<close> with a key that has no
  generator returns a failed outcome whose error text says that the platform is not
  enabled. With a key matching an enabled provider \<open>generateImage\<close> can succeed: there is
  a world in which it returns a successful result.
\<close>

theorem single_target_failure_is_nil_or_error_outcome:
  "(map_of (Platforms cfg) k = None \<or>
    (\<exists>p. map_of (Platforms cfg) k = Some p \<and> \<not> Enabled p) \<longrightarrow>
      generateImage w cfg k prompt sz = (None, []) \<and>
      handleGenerate w cfg (Inr \<lparr>gq_Prompt = prompt, gq_Platform = k, gq_Size = sz\<rparr>)
        = ((500, ErrorBody msg_generate_failed), []))
   \<and> (map_of (generators g) k' = None \<longrightarrow>
      \<not> gr_Success (fst (GenerateSingle w g k' prompt)) \<and>
      gr_Error (fst (GenerateSingle w g k' prompt)) = msg_platform_not_enabled \<and>
      gr_Platform (fst (GenerateSingle w g k' prompt)) = k' \<and>
      snd (GenerateSingle w g k' prompt) = [])
   \<and> (map_of (Platforms cfg) k'' = Some p'' \<and> Enabled p'' \<longrightarrow>
      (\<exists>w' r. fst (generateImage w' cfg k'' prompt sz) = Some r \<and> res_Success r))"
proof (intro conjI impI)
  assume a: "map_of (Platforms cfg) k = None \<or>
    (\<exists>p. map_of (Platforms cfg) k = Some p \<and> \<not> Enabled p)"
  then show g: "generateImage w cfg k prompt sz = (None, [])"
    by (auto simp: generateImage_def)
  then show "handleGenerate w cfg (Inr \<lparr>gq_Prompt = prompt, gq_Platform = k, gq_Size = sz\<rparr>)
        = ((500, ErrorBody msg_generate_failed), [])"
    by (simp add: handleGenerate_def)
next
  assume a: "map_of (generators g) k' = None"
  then show "\<not> gr_Success (fst (GenerateSingle w g k' prompt))"
    and "gr_Error (fst (GenerateSingle w g k' prompt)) = msg_platform_not_enabled"
    and "gr_Platform (fst (GenerateSingle w g k' prompt)) = k'"
    and "snd (GenerateSingle w g k' prompt) = []"
    by (simp_all add: GenerateSingle_def)
next
  assume "map_of (Platforms cfg) k'' = Some p'' \<and> Enabled p''"
  then show "\<exists>w' r. fst (generateImage w' cfg k'' prompt sz) = Some r \<and> res_Success r"
    using generateImage_can_succeed by blast
qed

theorem single_target_failure_is_nil_or_error_outcome_witness:
  "(\<exists>p. map_of (Platforms ex_cfg) ''off'' = Some p \<and> \<not> Enabled p) \<and>
   map_of (generators ex_generator2) ''off'' = None \<and>
   (map_of (Platforms ex_cfg) ''openai'' = Some (ex_platform ''OpenAI'' ''sk-2'' True) \<and>
    Enabled (ex_platform ''OpenAI'' ''sk-2'' True)) \<and>
   handleGenerate ex_world ex_cfg (Inr \<lparr>gq_Prompt = ''a cat'', gq_Platform = ''off'', gq_Size = []\<rparr>)
        = ((500, ErrorBody msg_generate_failed), []) \<and>
   gr_Error (fst (GenerateSingle ex_world ex_generator2 ''off'' ''a cat'')) = msg_platform_not_enabled \<and>
   (\<exists>w' r. fst (generateImage w' ex_cfg ''openai'' ''a cat'' []) = Some r \<and> res_Success r)"
proof -
  have h1: "\<exists>p. map_of (Platforms ex_cfg) ''off'' = Some p \<and> \<not> Enabled p"
    by (simp add: ex_cfg_def ex_platform_def)
  have h2: "map_of (generators ex_generator2) ''off'' = None"
    by (simp add: ex_generator2_def New_def getEnabledPlatforms_def ex_cfg_def ex_platform_def)
  have h3: "map_of (Platforms ex_cfg) ''openai'' = Some (ex_platform ''OpenAI'' ''sk-2'' True) \<and>
    Enabled (ex_platform ''OpenAI'' ''sk-2'' True)"
    by (simp add: ex_cfg_def ex_platform_def)
  note T = single_target_failure_is_nil_or_error_outcome [where cfg = ex_cfg and k = "''off''"
      and w = ex_world and prompt = "''a cat''" and sz = "[]" and g = ex_generator2
      and k' = "''off''" and k'' = "''openai''" and p'' = "ex_platform ''OpenAI'' ''sk-2'' True"]
  show ?thesis using T h1 h2 h3 by blast
qed

text \<open>
  The claim as stated fails: for a missing and for a disabled key \<open>generateImage\<close>
  returns the empty result \<^verbatim>\<open>nil\<close>, which carries no error information.
\<close>

theorem missing_or_disabled_key_returns_nil:
  "generateImage ex_world ex_cfg ''nokey'' ''a cat'' [] = (None, []) \<and>
   generateImage ex_world ex_cfg ''off'' ''a cat'' [] = (None, [])"
  by code_simp

section \<open>Publish dispatch\<close>

lemma publishEach_results:
  "fst (publishEach w m path title content keys results) =
     (\<lambda>k. if k \<in> set keys
          then Some (outcome_text (fst (Publish w m k path title content)))
          else results k)"
proof (induction keys arbitrary: results)
  case Nil
  show ?case by simp
next
  case (Cons plat rest)
  obtain res evs where pub: "Publish w m plat path title content = (res, evs)"
    by (cases "Publish w m plat path title content")
  show ?case
  proof (cases res)
    case (Inl err)
    with pub Cons show ?thesis
      by (auto simp: after_def fun_eq_iff)
  next
    case (Inr url)
    with pub Cons show ?thesis
      by (auto simp: after_def fun_eq_iff)
  qed
qed

lemma adapter_calls_append:
  "adapter_calls (xs @ ys) = adapter_calls xs @ adapter_calls ys"
  by (induction xs rule: adapter_calls.induct) simp_all

lemma adapter_calls_Publish:
  "adapter_calls (snd (Publish w m k path title content)) =
     (if map_of (platforms m) k = None then [] else [k])"
  by (simp add: Publish_def split: option.split)

lemma publishEach_calls:
  "adapter_calls (snd (publishEach w m path title content keys results)) =
     filter (\<lambda>k. map_of (platforms m) k \<noteq> None) keys"
proof (induction keys arbitrary: results)
  case Nil
  show ?case by simp
next
  case (Cons plat rest)
  obtain res evs where pub: "Publish w m plat path title content = (res, evs)"
    by (cases "Publish w m plat path title content")
  have calls: "adapter_calls evs = (if map_of (platforms m) plat = None then [] else [plat])"
    using adapter_calls_Publish [of w m plat path title content] pub by simp
  show ?case
    using pub Cons calls
    by (cases res) (simp_all add: after_def adapter_calls_append)
qed

lemma update_entries:
  "(k', v') \<in> set (AList.update k v al) \<Longrightarrow> (k', v') = (k, v) \<or> (k', v') \<in> set al"
  by (induction al) (auto split: if_splits)

lemma registered_keys_are_types:
  "(k, p) \<in> set (platforms (foldl Register New_Manager ps)) \<Longrightarrow> Type p = k"
proof (induction ps arbitrary: k p rule: rev_induct)
  case Nil
  then show ?case by (simp add: New_Manager_def)
next
  case (snoc x xs)
  then show ?case
    by (auto simp: Register_def dest!: update_entries)
qed

lemma List_types:
  "map Type (List (foldl Register New_Manager ps)) =
     map fst (platforms (foldl Register New_Manager ps))"
  using registered_keys_are_types [of _ _ ps]
  by (auto simp: List_def)

text \<open>
  C7. For an approved image and a manager built by \<open>Register\<close>, the answer of
  \<open>handlePublish\<close> has status 200 and a map whose keys are exactly the requested
  platform keys, or all registered keys when the request names none. The entry of each
  key is the outcome of that key's own adapter call and of nothing else, and the
  adapter of every requested key that is registered is called, in the order of the
  request: a failure of one adapter neither stops the calls of the others nor changes
  their entries.
\<close>

theorem publish_one_outcome_per_key:
  assumes "db (pq_ImageID req) = Some row" and "rec_Status row = ''approved''"
    and "m = foldl Register New_Manager ps"
    and "keys = (if pq_Platforms req = [] then map fst (platforms m) else pq_Platforms req)"
  shows "fst (fst (handlePublish w db m (Inr req))) = 200 \<and>
         dom (results_of (fst (handlePublish w db m (Inr req)))) = set keys \<and>
         (\<forall>k \<in> set keys.
            results_of (fst (handlePublish w db m (Inr req))) k =
              Some (outcome_text
                (fst (Publish w m k (rec_Path row) (pq_Title req) (pq_Content req))))) \<and>
         adapter_calls (snd (handlePublish w db m (Inr req))) =
           filter (\<lambda>k. map_of (platforms m) k \<noteq> None) keys"
proof -
  have keys: "(if pq_Platforms req = [] then map Type (List m) else pq_Platforms req) = keys"
    using assms(3,4) List_types by simp
  have "results_of (fst (handlePublish w db m (Inr req))) =
      fst (publishEach w m (rec_Path row) (pq_Title req) (pq_Content req) keys Map.empty)"
    using assms(1,2) keys by (simp add: handlePublish_def Let_def)
  moreover have "fst (fst (handlePublish w db m (Inr req))) = 200"
    using assms(1,2) by (simp add: handlePublish_def Let_def)
  moreover have "snd (handlePublish w db m (Inr req)) =
      snd (publishEach w m (rec_Path row) (pq_Title req) (pq_Content req) keys Map.empty)"
    using assms(1,2) keys by (simp add: handlePublish_def Let_def)
  ultimately show ?thesis
    by (auto simp: publishEach_results publishEach_calls dom_def)
qed

theorem publish_one_outcome_per_key_witness:
  "ex_db 3 = Some (ex_record 3 ''/data/out/gone.png'' ''approved'') \<and>
   ex_manager = foldl Register New_Manager
     [NewXiaohongshu [] ''c'' ''t'', Douyin [], CustomPlatform ''Blog'' ''custom'' [] []] \<and>
   dom (results_of (fst (handlePublish ex_world ex_db ex_manager (Inr (ex_publish 3 [])))))
     = {''xiaohongshu'', ''douyin'', ''custom''} \<and>
   results_of (fst (handlePublish ex_world ex_db ex_manager (Inr (ex_publish 3 [])))) ''xiaohongshu''
     = Some (msg_failed_prefix @ msg_open_image_failed @ ''no such file'') \<and>
   results_of (fst (handlePublish ex_world ex_db ex_manager (Inr (ex_publish 3 [])))) ''douyin''
     = Some msg_douyin_dev \<and>
   results_of (fst (handlePublish ex_world ex_db ex_manager (Inr (ex_publish 3 [])))) ''custom''
     = Some (msg_failed_prefix @ msg_no_api_url) \<and>
   adapter_calls (snd (handlePublish ex_world ex_db ex_manager (Inr (ex_publish 3 []))))
     = [''xiaohongshu'', ''douyin'', ''custom'']"
proof -
  have h1: "ex_db (pq_ImageID (ex_publish 3 [])) = Some (ex_record 3 ''/data/out/gone.png'' ''approved'')"
    by (simp add: ex_db_def ex_publish_def)
  have h2: "rec_Status (ex_record 3 ''/data/out/gone.png'' ''approved'') = ''approved''"
    by (simp add: ex_record_def)
  have h3: "ex_manager = foldl Register New_Manager
     [NewXiaohongshu [] ''c'' ''t'', Douyin [], CustomPlatform ''Blog'' ''custom'' [] []]"
    by (simp add: ex_manager_def)
  have ps: "platforms ex_manager =
      [(''xiaohongshu'', Xiaohongshu ''http://127.0.0.1:18060/mcp'' ''c'' ''t''),
       (''douyin'', Douyin []), (''custom'', CustomPlatform ''Blog'' ''custom'' [] [])]"
    by (simp add: ex_manager_def Register_def New_Manager_def NewXiaohongshu_def)
  have h4: "[''xiaohongshu'', ''douyin'', ''custom''] =
      (if pq_Platforms (ex_publish 3 []) = [] then map fst (platforms ex_manager)
       else pq_Platforms (ex_publish 3 []))"
    by (simp add: ps ex_publish_def)
  have x: "fst (Publish ex_world ex_manager ''xiaohongshu'' ''/data/out/gone.png'' ''t'' ''c'')
      = Inl (msg_open_image_failed @ ''no such file'')"
    by (simp add: Publish_def ps ex_world_def)
  have d: "fst (Publish ex_world ex_manager ''douyin'' ''/data/out/gone.png'' ''t'' ''c'')
      = Inr msg_douyin_dev"
    by (simp add: Publish_def ps)
  have c: "fst (Publish ex_world ex_manager ''custom'' ''/data/out/gone.png'' ''t'' ''c'')
      = Inl msg_no_api_url"
    by (simp add: Publish_def ps)
  have r: "rec_Path (ex_record 3 ''/data/out/gone.png'' ''approved'') = ''/data/out/gone.png''"
    "pq_Title (ex_publish 3 []) = ''t''" "pq_Content (ex_publish 3 []) = ''c''"
    by (simp_all add: ex_record_def ex_publish_def)
  from publish_one_outcome_per_key [where db = ex_db and req = "ex_publish 3 []"
      and w = ex_world, OF h1 h2 h3 h4]
  show ?thesis
    using h1 h3 x d c r ps by (auto simp: ex_publish_def)
qed

text \<open>
  C10. For a request that names an existing image whose status is not
  \<^verbatim>\<open>approved\<close>, \<open>handlePublish\<close> answers with status 400 and an error and calls no
  adapter; whenever an adapter is called, the request names an image whose status is
  \<^verbatim>\<open>approved\<close>.
\<close>

theorem unapproved_record_is_not_published:
  "(db (pq_ImageID req) = Some row \<and> rec_Status row \<noteq> ''approved'' \<longrightarrow>
      fst (handlePublish w db m (Inr req)) = (400, ErrorBody msg_only_approved) \<and>
      snd (handlePublish w db m (Inr req)) = [])
   \<and> (adapter_calls (snd (handlePublish w db' m' bound)) \<noteq> [] \<longrightarrow>
      (\<exists>req' row'. bound = Inr req' \<and> db' (pq_ImageID req') = Some row' \<and>
         rec_Status row' = ''approved''))"
proof (intro conjI impI)
  assume "db (pq_ImageID req) = Some row \<and> rec_Status row \<noteq> ''approved''"
  then show "fst (handlePublish w db m (Inr req)) = (400, ErrorBody msg_only_approved)"
    and "snd (handlePublish w db m (Inr req)) = []"
    by (simp_all add: handlePublish_def)
next
  assume a: "adapter_calls (snd (handlePublish w db' m' bound)) \<noteq> []"
  show "\<exists>req' row'. bound = Inr req' \<and> db' (pq_ImageID req') = Some row' \<and>
         rec_Status row' = ''approved''"
  proof (cases bound)
    case (Inl err)
    with a show ?thesis by (simp add: handlePublish_def)
  next
    case (Inr req')
    show ?thesis
    proof (cases "db' (pq_ImageID req')")
      case None
      with a Inr show ?thesis by (simp add: handlePublish_def)
    next
      case (Some row')
      with a Inr show ?thesis
        by (cases "rec_Status row' = ''approved''") (simp_all add: handlePublish_def)
    qed
  qed
qed

theorem unapproved_record_is_not_published_witness:
  "(ex_db (pq_ImageID (ex_publish 1 [''douyin''])) = Some (ex_record 1 ''/data/out/a.png'' ''pending'') \<and>
    rec_Status (ex_record 1 ''/data/out/a.png'' ''pending'') \<noteq> ''approved'') \<and>
   handlePublish ex_world ex_db ex_manager (Inr (ex_publish 1 [''douyin'']))
     = ((400, ErrorBody msg_only_approved), []) \<and>
   adapter_calls (snd (handlePublish ex_world ex_db ex_manager (Inr (ex_publish 2 [''douyin''])))) \<noteq> [] \<and>
   (\<exists>req' row'. Inr (ex_publish 2 [''douyin'']) = (Inr req' :: string + PublishRequest) \<and>
      ex_db (pq_ImageID req') = Some row' \<and> rec_Status row' = ''approved'')"
proof -
  have h1: "ex_db (pq_ImageID (ex_publish 1 [''douyin''])) = Some (ex_record 1 ''/data/out/a.png'' ''pending'') \<and>
    rec_Status (ex_record 1 ''/data/out/a.png'' ''pending'') \<noteq> ''approved''"
    by (simp add: ex_db_def ex_publish_def ex_record_def)
  have ps: "platforms ex_manager =
      [(''xiaohongshu'', Xiaohongshu ''http://127.0.0.1:18060/mcp'' ''c'' ''t''),
       (''douyin'', Douyin []), (''custom'', CustomPlatform ''Blog'' ''custom'' [] [])]"
    by (simp add: ex_manager_def Register_def New_Manager_def NewXiaohongshu_def)
  have h2: "adapter_calls (snd (handlePublish ex_world ex_db ex_manager
      (Inr (ex_publish 2 [''douyin''])))) \<noteq> []"
    by (simp add: handlePublish_def ex_db_def ex_publish_def ex_record_def Let_def
        Publish_def ps after_def)
  note T = unapproved_record_is_not_published [where db = ex_db
      and req = "ex_publish 1 [''douyin'']" and row = "ex_record 1 ''/data/out/a.png'' ''pending''"
      and w = ex_world and m = ex_manager and db' = ex_db and m' = ex_manager
      and bound = "Inr (ex_publish 2 [''douyin''])"]
  from T h1 have a: "handlePublish ex_world ex_db ex_manager (Inr (ex_publish 1 [''douyin'']))
     = ((400, ErrorBody msg_only_approved), [])"
    by (metis prod.collapse)
  from T h2 have b: "\<exists>req' row'. Inr (ex_publish 2 [''douyin'']) = (Inr req' :: string + PublishRequest) \<and>
      ex_db (pq_ImageID req') = Some row' \<and> rec_Status row' = ''approved''"
    by blast
  show ?thesis using h1 h2 a b by blast
qed

section \<open>Fan-out generation\<close>

lemma generateWorker_platform:
  "gr_Platform (fst (generateWorker w g d prompt entry)) = gen_Name (snd entry)"
proof (cases entry)
  case (Pair platform generator)
  show ?thesis
  proof (cases "Generate w generator prompt (g_Width (ig_cfg g)) (g_Height (ig_cfg g))")
    case (Pair res evs)
    note gen = this
    show ?thesis
    proof (cases res)
      case (Inl err)
      with gen \<open>entry = (platform, generator)\<close> show ?thesis
        by (simp add: generateWorker_def)
    next
      case (Inr imageURL)
      obtain derr evs' where dl: "downloadImage w imageURL
          (Join [d, platform @ ''_'' @ show_int (Unix (now w)) @ ''.png'']) = (derr, evs')"
        by (cases "downloadImage w imageURL
          (Join [d, platform @ ''_'' @ show_int (Unix (now w)) @ ''.png''])")
      show ?thesis
        using gen Inr dl \<open>entry = (platform, generator)\<close>
        by (cases derr) (simp_all add: generateWorker_def Let_def)
    qed
  qed
qed

text \<open>
  C8 (amended). \<open>GenerateAll\<close> over \<open>N\<close> generators returns exactly \<open>N\<close> outcomes, one
  per generator, whatever each provider answers; over the generators made from the
  enabled platforms that is one per enabled platform. Each outcome is labelled with the
  display name of its generator, not with its key, so the labels are distinct when the
  display names are.
\<close>

theorem fan_out_one_outcome_per_generator:
  "length (fst (GenerateAll w g prompt)) = length (generators g) \<and>
   mset (map gr_Platform (fst (GenerateAll w g prompt)))
     = mset (map (\<lambda>entry. gen_Name (snd entry)) (generators g)) \<and>
   (distinct (map (\<lambda>entry. gen_Name (snd entry)) (generators g)) \<longrightarrow>
      distinct (map gr_Platform (fst (GenerateAll w g prompt)))) \<and>
   length (fst (GenerateAll w (New gc (getEnabledPlatforms cfg)) prompt))
     = length (getEnabledPlatforms cfg)"
proof -
  have len: "\<And>g. length (fst (GenerateAll w g prompt)) = length (generators g)"
    by (simp add: GenerateAll_def Let_def)
  have names: "map gr_Platform (fst (GenerateAll w g prompt))
      = map (\<lambda>entry. gen_Name (snd entry)) (generators g)"
    by (simp add: GenerateAll_def Let_def generateWorker_platform)
  show ?thesis
    using len names by (simp add: New_def)
qed

theorem fan_out_one_outcome_per_generator_witness:
  "distinct (map (\<lambda>entry. gen_Name (snd entry)) (generators ex_generator2)) \<and>
   distinct (map gr_Platform (fst (GenerateAll ex_world ex_generator2 ''a cat''))) \<and>
   length (fst (GenerateAll ex_world ex_generator2 ''a cat'')) = 4"
proof -
  have h: "distinct (map (\<lambda>entry. gen_Name (snd entry)) (generators ex_generator2))"
    by code_simp
  have l: "length (generators ex_generator2) = 4"
    by code_simp
  from fan_out_one_outcome_per_generator [of ex_world ex_generator2 "''a cat''" ex_gen_cfg ex_cfg] h l
  show ?thesis by simp
qed

text \<open>
  The claim as stated fails: two providers with distinct keys and one display name give
  two outcomes with the same label.
\<close>

theorem fan_out_labels_can_repeat:
  "distinct (map fst (generators ex_generator)) \<and>
   map gr_Platform (fst (GenerateAll ex_world ex_generator ''a cat'')) = [''Same'', ''Same''] \<and>
   \<not> distinct (map gr_Platform (fst (GenerateAll ex_world ex_generator ''a cat'')))"
proof -
  have g: "generators ex_generator =
      [(''a'', \<lparr>gen_Name = ''Same'', gen_APIKey = ''sk-1'', gen_Model = ''m'',
                gen_BaseURL = ''https://api.example.com/v1''\<rparr>),
       (''b'', \<lparr>gen_Name = ''Same'', gen_APIKey = ''sk-2'', gen_Model = ''m'',
                gen_BaseURL = ''https://api.example.com/v1''\<rparr>)]"
    by (simp add: ex_generator_def New_def ex_platform_def)
  have "map gr_Platform (fst (GenerateAll ex_world ex_generator ''a cat''))
      = map (\<lambda>entry. gen_Name (snd entry)) (generators ex_generator)"
    by (simp add: GenerateAll_def Let_def generateWorker_platform)
  then show ?thesis by (simp add: g)
qed

section \<open>The size token\<close>

text \<open>
  C9. The claim: every synchronous adapter sends a \<open>WIDTHxHEIGHT\<close> token and, when the
  height exceeds the width, a narrower width in place of the requested one.
  \<open>generateSyncImage\<close> does so, halving the width: for 1024 by 2048 it sends
  \<^verbatim>\<open>512x2048\<close>. \<open>generateViaHTTP\<close> does not: for 1024 by 2048 it sends the requested
  width, \<^verbatim>\<open>1024x2048\<close>.
\<close>

theorem generateViaHTTP_sends_raw_width:
  "snd (generateViaHTTP ex_world
          \<lparr>gen_Name = ''OpenAI'', gen_APIKey = ''sk-2'', gen_Model = ''m'',
           gen_BaseURL = ''https://api.example.com/v1''\<rparr> ''a cat'' 1024 2048)
     = [EvPost \<lparr>req_url = ''https://api.example.com/v1/images/generations'',
                req_auth = ''Bearer sk-2'',
                req_body = SyncBody ''m'' ''a cat'' ''1024x2048''\<rparr>] \<and>
   hd (snd (generateSyncImage ex_world ex_cfg (ex_platform ''OpenAI'' ''sk-2'' True) ''a cat''))
     = EvPost \<lparr>req_url = ''https://api.example.com/v1/images/generations'',
               req_auth = ''Bearer sk-2'',
               req_body = SyncBody ''m'' ''a cat'' ''512x2048''\<rparr>"
  by code_simp

end
